theory Spec2Isabelle
  imports Complex_Main "HOL-Library.Monad_Syntax"
begin

section \<open>Values and sequences\<close>

text \<open>
  The model follows \<^verbatim>\<open>src/Python_model/FollicleFunction.py\<close>. A float64 is a
  \<^typ>\<open>real\<close>: rounding, overflow and the non-finite values \<^verbatim>\<open>inf\<close> and
  \<^verbatim>\<open>nan\<close> are not values of the model. The result \<^term>\<open>None\<close> stands for a call
  that raises \<^verbatim>\<open>IndexError\<close>, or in which a division by zero or a power outside its
  domain occurs: there numpy yields \<^verbatim>\<open>inf\<close> or \<^verbatim>\<open>nan\<close> (plain Python floats raise
  \<^verbatim>\<open>ZeroDivisionError\<close>), and the model follows the computation no further. A result
  \<open>Some r\<close> is a call that returns with every such operation inside its domain.
\<close>

definition py_index :: "nat \<Rightarrow> int \<Rightarrow> nat option" where
  \<comment> \<open>position addressed by index \<open>i\<close> in a sequence of length \<open>n\<close>; negative indices count
      from the end\<close>
  "py_index n i =
     (if 0 \<le> i \<and> i < int n then Some (nat i)
      else if - int n \<le> i \<and> i < 0 then Some (nat (int n + i))
      else None)"

definition py_get :: "'a list \<Rightarrow> int \<Rightarrow> 'a option" where
  "py_get xs i = map_option (\<lambda>k. xs ! k) (py_index (length xs) i)"

definition set_item :: "'a list \<Rightarrow> nat \<Rightarrow> 'a \<Rightarrow> 'a list option" where
  \<comment> \<open>\<^verbatim>\<open>xs[i] = v\<close> for an index \<open>i \<ge> 0\<close>\<close>
  "set_item xs i v = (if i < length xs then Some (xs[i := v]) else None)"

definition pow_defined :: "real \<Rightarrow> real \<Rightarrow> bool" where
  \<comment> \<open>where \<^verbatim>\<open>x ** p\<close> is a finite number: not a zero base under a negative exponent
      (\<^verbatim>\<open>inf\<close>), not a negative base under a fractional exponent (\<^verbatim>\<open>nan\<close>)\<close>
  "pow_defined x p \<longleftrightarrow> \<not> (x = 0 \<and> p < 0) \<and> \<not> (x < 0 \<and> p \<noteq> of_int \<lfloor>p\<rfloor>)"

definition np_power :: "real \<Rightarrow> real \<Rightarrow> real" where
  \<comment> \<open>the value of \<^verbatim>\<open>x ** p\<close> with a float exponent, where it is defined:
      \<^verbatim>\<open>x ** 0 = 1\<close> also at \<^verbatim>\<open>x = 0\<close>; under a whole exponent a negative base is
      fine, and a negative exponent gives the reciprocal\<close>
  "np_power x p =
     (if p = of_int \<lfloor>p\<rfloor>
      then (if 0 \<le> p then x ^ nat \<lfloor>p\<rfloor> else 1 / x ^ nat (- \<lfloor>p\<rfloor>))
      else x powr p)"

definition float_pow :: "real \<Rightarrow> real \<Rightarrow> real option" where
  "float_pow x p = (if pow_defined x p then Some (np_power x p) else None)"

definition float_div :: "real \<Rightarrow> real \<Rightarrow> real option" where
  \<comment> \<open>\<^verbatim>\<open>a / b\<close>\<close>
  "float_div a b = (if b = 0 then None else Some (a / b))"

fun np_sum :: "(real \<Rightarrow> real option) \<Rightarrow> real list \<Rightarrow> real option" where
  \<comment> \<open>\<^verbatim>\<open>np.sum\<close> of an expression computed element by element\<close>
  "np_sum e [] = Some 0"
| "np_sum e (s # xs) = do { v \<leftarrow> e s; r \<leftarrow> np_sum e xs; Some (v + r) }"

section \<open>The follicle registry\<close>

text \<open>
  \<^verbatim>\<open>Follicles.Follicle\<close> is a sequence of dicts, one per follicle; the function reads
  the keys \<^verbatim>\<open>'Destiny'\<close>, \<^verbatim>\<open>'Time'\<close> (the recorded time stamps) and
  \<^verbatim>\<open>'TimeDecrease'\<close>. Whatever else a dict holds sits in the record's extension slot,
  which the function never touches. \<^verbatim>\<open>Follicles.Active\<close> lists the 1-based positions of
  the active follicles, in state-vector order, and \<^verbatim>\<open>Follicles.ActiveFSHS\<close> their FSH
  sensitivities.
\<close>

record follicle =
  Destiny :: int
  Time :: "real list"
  TimeDecrease :: real

record 'r follicles =
  Follicle :: "'r list"
  Active :: "int list"
  ActiveFSHS :: "real list"

definition slot_index :: "'r follicles \<Rightarrow> nat \<Rightarrow> nat option" where
  \<comment> \<open>the position that \<^verbatim>\<open>Follicles.Follicle[Follicles.Active[i]-1]\<close> addresses\<close>
  "slot_index F i = do {
     a \<leftarrow> py_get (Active F) (int i);
     py_index (length (Follicle F)) (a - 1)
   }"

section \<open>Active sizes and hormone levels\<close>

fun zero_tagged ::
  "int list \<Rightarrow> ('a follicle_scheme) follicles \<Rightarrow> nat list \<Rightarrow> real list \<Rightarrow> real list option"
where
  "zero_tagged tags F [] x = Some x"
| "zero_tagged tags F (i # js) x = do {
     k \<leftarrow> slot_index F i;
     x' \<leftarrow> (if Destiny (Follicle F ! k) \<in> set tags then set_item x i 0 else Some x);
     zero_tagged tags F js x'
   }"

definition active_sizes ::
  "int \<Rightarrow> real list \<Rightarrow> ('a follicle_scheme) follicles \<Rightarrow> int list
     \<Rightarrow> (real list \<times> real list) option"
where
  \<comment> \<open>lines 9 to 26. \<^verbatim>\<open>x = y[:NumFollicles]\<close> is a basic numpy slice, a view on the
      buffer of \<open>y\<close>: each \<^verbatim>\<open>x[i] = 0\<close> is a write to \<^verbatim>\<open>y[i]\<close>. The result is
      \<open>x\<close> and the state vector as the writes leave it.\<close>
  "active_sizes NumFollicles y F para =
     (if NumFollicles > 0 then do {
        mode \<leftarrow> py_get para 0;
        let n = nat NumFollicles;
        x1 \<leftarrow> (if mode = 0 then zero_tagged [-2, -3] F [0..<n] (take n y) else Some (take n y));
        x2 \<leftarrow> (if mode = 0 then zero_tagged [4] F [0..<n] x1 else Some x1);
        Some (x2, x2 @ drop n y)
      }
      else Some ([0], y))"

definition hormone_levels :: "real \<Rightarrow> real list \<Rightarrow> real \<Rightarrow> real list \<Rightarrow> (real \<times> real) option" where
  \<comment> \<open>lines 29 to 31\<close>
  "hormone_levels t x Tovu Par = do {
     p56 \<leftarrow> py_get Par 56;
     p57 \<leftarrow> py_get Par 57;
     c \<leftarrow> float_pow p57 p56;
     S \<leftarrow> np_sum (\<lambda>s. do {
            a \<leftarrow> float_pow s p56;
            q \<leftarrow> float_div a (a + c);
            Some (q * s ^ 2) }) x;
     let SF = pi * S;
     p74 \<leftarrow> py_get Par 74;
     p58 \<leftarrow> py_get Par 58;
     p59 \<leftarrow> py_get Par 59;
     p60 \<leftarrow> py_get Par 60;
     p61 \<leftarrow> py_get Par 61;
     let E2_lvl = p74 + (p58 + p59 * SF) + p60 * exp (- p61 * (t - (Tovu + 7)) ^ 2);
     p75 \<leftarrow> py_get Par 75;
     p62 \<leftarrow> py_get Par 62;
     let P4_lvl = p75 + p62 * exp (- p61 * (t - (Tovu + 7)) ^ 2);
     Some (E2_lvl, P4_lvl)
   }"

section \<open>Growth law and lifecycle\<close>

definition growth_X :: "real list \<Rightarrow> real \<Rightarrow> real \<Rightarrow> real \<Rightarrow> real \<Rightarrow> real \<Rightarrow> real option" where
  \<comment> \<open>lines 51 to 60\<close>
  "growth_X parafoll p4all fshrezcomp SumV fFSH fsize = do {
     pf1 \<leftarrow> py_get parafoll 1;
     g1 \<leftarrow> float_div 1 (1 + (p4all / 3) ^ 3);
     g2 \<leftarrow> float_div (fshrezcomp ^ 5) (0.95 ^ 5 + fshrezcomp ^ 5);
     let gamma = pf1 * (g1 + g2);
     pf4 \<leftarrow> py_get parafoll 4;
     k1 \<leftarrow> float_div (0.55 ^ 10) (0.55 ^ 10 + fshrezcomp ^ 10);
     let kappa = pf4 * k1;
     xi \<leftarrow> py_get parafoll 2;
     ffsh \<leftarrow> float_div (fshrezcomp ^ 4) (fshrezcomp ^ 4 + fFSH ^ 4);
     pf3 \<leftarrow> py_get parafoll 3;
     pf0 \<leftarrow> py_get parafoll 0;
     own \<leftarrow> float_pow fsize pf0;
     Some (ffsh * (xi - fsize) * fsize * (gamma - (kappa * (SumV - (pf3 * own)))))
   }"

definition decline_condition ::
  "real list \<Rightarrow> real \<Rightarrow> real \<Rightarrow> 'a follicle_scheme \<Rightarrow> bool option"
where
  \<comment> \<open>lines 67 to 72, with the short-circuit order of \<^verbatim>\<open>or\<close> and \<^verbatim>\<open>and\<close>: a
      lookup happens only when the operands before it did not decide\<close>
  "decline_condition parafoll t X r = do {
     pf11 \<leftarrow> py_get parafoll 11;
     if X \<le> pf11 \<or> Destiny r = -2 then Some True
     else do {
       pf12 \<leftarrow> py_get parafoll 12;
       d3 \<leftarrow> (if X \<le> pf12 then do {
                 t0 \<leftarrow> py_get (Time r) 0;
                 pf14 \<leftarrow> py_get parafoll 14;
                 Some (t - t0 \<ge> pf14 \<and> Destiny r = 3) }
               else Some False);
       if d3 then Some True
       else do {
         d4 \<leftarrow> (if X \<le> pf12 then do {
                   t0 \<leftarrow> py_get (Time r) 0;
                   pf13 \<leftarrow> py_get parafoll 13;
                   Some (t - t0 \<ge> pf13 \<and> Destiny r = -1) }
                 else Some False);
         if d4 then Some True
         else do {
           d5 \<leftarrow> (if Destiny r = 3 then do {
                     pf10 \<leftarrow> py_get parafoll 10;
                     Some (t - TimeDecrease r \<ge> pf10) }
                   else Some False);
           if d5 then Some True
           else do {
             t0 \<leftarrow> py_get (Time r) 0;
             tl \<leftarrow> py_get (Time r) (- 1);
             pf14 \<leftarrow> py_get parafoll 14;
             Some (t0 - tl > pf14)
           }
         }
       }
     }
   }"

definition follicle_step ::
  "real \<Rightarrow> real list \<Rightarrow> real \<Rightarrow> real \<Rightarrow> real \<Rightarrow> int list \<Rightarrow> real list \<Rightarrow> nat
     \<Rightarrow> real list \<Rightarrow> ('a follicle_scheme) follicles
     \<Rightarrow> (real list \<times> ('a follicle_scheme) follicles) option"
where
  \<comment> \<open>one pass of the loop of lines 45 to 88 for slot \<open>i\<close>; \<open>y\<close> is the state vector as the
      loop finds it, \<open>f\<close> the derivative vector under construction. Lines 62 to 64 only bind
      a local name. The record of the slot is looked up once: each of the source's lookups
      \<^verbatim>\<open>Follicles.Follicle[Follicles.Active[i]-1]\<close> addresses the same position, and
      every path through lines 67 to 82 makes at least one. \<^verbatim>\<open>y[i]\<close> in lines 80 and 82
      is the value \<open>fsize\<close> read in line 48.\<close>
  "follicle_step t y fshrezcomp p4all SumV para parafoll i f F = do {
     fFSH \<leftarrow> py_get (ActiveFSHS F) (int i);
     fsize \<leftarrow> py_get y (int i);
     X \<leftarrow> growth_X parafoll p4all fshrezcomp SumV fFSH fsize;
     mode \<leftarrow> py_get para 0;
     if mode = 0 then do {
       k \<leftarrow> slot_index F i;
       let r = Follicle F ! k;
       c \<leftarrow> decline_condition parafoll t X r;
       if c then do {
         let r' = (if Destiny r \<noteq> -2 then r\<lparr>Destiny := -2, TimeDecrease := t\<rparr> else r);
         f' \<leftarrow> set_item f i (- 0.05 * fsize * (t - TimeDecrease r'));
         Some (f', F\<lparr>Follicle := (Follicle F)[k := r']\<rparr>)
       }
       else if Destiny r = -3 then do {
         f' \<leftarrow> set_item f i (- 1000 * fsize);
         Some (f', F)
       }
       else do {
         f' \<leftarrow> set_item f i X;
         Some (f', F)
       }
     }
     else do {
       f' \<leftarrow> set_item f i X;
       Some (f', F)
     }
   }"

fun follicle_loop ::
  "real \<Rightarrow> real list \<Rightarrow> real \<Rightarrow> real \<Rightarrow> real \<Rightarrow> int list \<Rightarrow> real list \<Rightarrow> nat list
     \<Rightarrow> real list \<Rightarrow> ('a follicle_scheme) follicles
     \<Rightarrow> (real list \<times> ('a follicle_scheme) follicles) option"
where
  "follicle_loop t y fsh p4 SumV para parafoll [] f F = Some (f, F)"
| "follicle_loop t y fsh p4 SumV para parafoll (i # js) f F = do {
     (f', F') \<leftarrow> follicle_step t y fsh p4 SumV para parafoll i f F;
     follicle_loop t y fsh p4 SumV para parafoll js f' F'
   }"

section \<open>The right-hand side\<close>

text \<open>
  \<^verbatim>\<open>ODE_Model_NormalCycle\<close> is imported from a module that is not part of the sources
  at hand; it is the parameter \<open>ode\<close>, a function of its five arguments that returns the
  derivative vector or raises. The arguments \<^verbatim>\<open>Stim\<close> and \<^verbatim>\<open>settings\<close> are never
  read and are left out. Since the function writes to its arguments \<^verbatim>\<open>y\<close> and
  \<^verbatim>\<open>Follicles\<close>, the result holds the returned vector together with both as the call
  leaves them.
\<close>

type_synonym ode_model = "real \<Rightarrow> real list \<Rightarrow> real list \<Rightarrow> real \<Rightarrow> real \<Rightarrow> real list option"

record 'r outcome =
  derivs :: "real list"
  state_after :: "real list"
  registry_after :: "'r follicles"

definition FollicleFunction ::
  "ode_model \<Rightarrow> real \<Rightarrow> real list \<Rightarrow> real \<Rightarrow> ('a follicle_scheme) follicles \<Rightarrow> int list
     \<Rightarrow> real list \<Rightarrow> real list \<Rightarrow> ('a follicle_scheme) outcome option"
where
  \<comment> \<open>\<open>f = dy.copy()\<close> is the start value of the loop\<close>
  "FollicleFunction ode t y Tovu F para parafoll Par = do {
     nfix \<leftarrow> py_get para 1;
     let NumFollicles = int (length y) - nfix;
     (x, y1) \<leftarrow> active_sizes NumFollicles y F para;
     (E2_lvl, P4_lvl) \<leftarrow> hormone_levels t x Tovu Par;
     dy \<leftarrow> ode t y1 Par E2_lvl P4_lvl;
     fshrezcomp \<leftarrow> py_get y1 (int (length y1) - 15);
     pf0 \<leftarrow> py_get parafoll 0;
     SumV \<leftarrow> np_sum (\<lambda>s. float_pow s pf0) x;
     (f, F') \<leftarrow> follicle_loop t y1 fshrezcomp P4_lvl SumV para parafoll
                  [0..<nat NumFollicles] dy F;
     Some \<lparr>derivs = f, state_after = y1, registry_after = F'\<rparr>
   }"

section \<open>Derived notions\<close>

text \<open>
  The value bound to \<^verbatim>\<open>X\<close> in pass \<open>i\<close> of the loop: lines 7 to 60 without the call of
  the hormone model, whose result does not enter \<^verbatim>\<open>X\<close>.
\<close>

definition growth_of_slot ::
  "real \<Rightarrow> real list \<Rightarrow> real \<Rightarrow> ('a follicle_scheme) follicles \<Rightarrow> int list \<Rightarrow> real list
     \<Rightarrow> real list \<Rightarrow> nat \<Rightarrow> real option"
where
  "growth_of_slot t y Tovu F para parafoll Par i = do {
     nfix \<leftarrow> py_get para 1;
     (x, y1) \<leftarrow> active_sizes (int (length y) - nfix) y F para;
     (E2_lvl, P4_lvl) \<leftarrow> hormone_levels t x Tovu Par;
     fshrezcomp \<leftarrow> py_get y1 (int (length y1) - 15);
     pf0 \<leftarrow> py_get parafoll 0;
     SumV \<leftarrow> np_sum (\<lambda>s. float_pow s pf0) x;
     fFSH \<leftarrow> py_get (ActiveFSHS F) (int i);
     fsize \<leftarrow> py_get y1 (int i);
     growth_X parafoll P4_lvl fshrezcomp SumV fFSH fsize
   }"

text \<open>
  What a call may do to the registry: \<open>decline_marks t S F F'\<close> says that \<open>F'\<close> is \<open>F\<close>
  except that some records addressed by slots of \<open>S\<close>, whose destiny was not \<open>-2\<close>, now have
  destiny \<open>-2\<close> and \<^verbatim>\<open>TimeDecrease\<close> \<open>t\<close> (lines 77 and 78).
\<close>

definition decline_marks ::
  "real \<Rightarrow> nat set \<Rightarrow> ('a follicle_scheme) follicles \<Rightarrow> ('a follicle_scheme) follicles \<Rightarrow> bool"
where
  "decline_marks t S F F' \<longleftrightarrow>
     Active F' = Active F \<and> ActiveFSHS F' = ActiveFSHS F \<and>
     length (Follicle F') = length (Follicle F) \<and>
     (\<forall>k < length (Follicle F).
        Follicle F' ! k = Follicle F ! k \<or>
        (Destiny (Follicle F ! k) \<noteq> -2 \<and>
         Follicle F' ! k = (Follicle F ! k)\<lparr>Destiny := -2, TimeDecrease := t\<rparr> \<and>
         (\<exists>i \<in> S. slot_index F i = Some k)))"

definition silenced :: "('a follicle_scheme) follicles \<Rightarrow> nat \<Rightarrow> bool" where
  \<comment> \<open>the follicle of slot \<open>i\<close> carries one of the tags for which lines 19 and 25 write
      \<open>0\<close> into \<open>x\<close>\<close>
  "silenced F i \<longleftrightarrow>
     (case slot_index F i of
        Some k \<Rightarrow> Destiny (Follicle F ! k) \<in> {-2, -3, 4}
      | None \<Rightarrow> False)"

definition ode_keeps_length :: "ode_model \<Rightarrow> bool" where
  \<comment> \<open>the hormone model returns one derivative per state variable\<close>
  "ode_keeps_length ode \<longleftrightarrow>
     (\<forall>t y Par E2 P4 dy. ode t y Par E2 P4 = Some dy \<longrightarrow> length dy = length y)"

section \<open>The specification's wording\<close>

text \<open>
  Two statements of the specification, written down as it words them, to be set against
  what the code computes.
\<close>

definition claimed_growth_X :: "real list \<Rightarrow> real \<Rightarrow> real \<Rightarrow> real \<Rightarrow> real \<Rightarrow> real \<Rightarrow> real" where
  \<comment> \<open>the growth expression with the competition sum less exactly the follicle's own term
      \<open>size ^ p\<close>; \<open>gamma\<close>, \<open>kappa\<close> and \<open>ffsh\<close> as in lines 51 to 57\<close>
  "claimed_growth_X parafoll p4all fshrezcomp SumV fFSH fsize =
     (let gamma = parafoll ! 1 * ((1 / (1 + (p4all / 3) ^ 3))
                    + (fshrezcomp ^ 5) / (0.95 ^ 5 + fshrezcomp ^ 5));
          kappa = parafoll ! 4 * (0.55 ^ 10 / (0.55 ^ 10 + fshrezcomp ^ 10));
          ffsh = (fshrezcomp ^ 4) / (fshrezcomp ^ 4 + fFSH ^ 4)
      in ffsh * (parafoll ! 2 - fsize) * fsize
           * (gamma - kappa * (SumV - np_power fsize (parafoll ! 0))))"

text \<open>
  Modelled from the spec: the size samples of a follicle record (the sizes of its
  \<open>sizeHistory\<close>, oldest first). The code that builds the follicle dicts is not part of the
  sources at hand, and \<^verbatim>\<open>FollicleFunction\<close> reads no key that holds sizes; here they sit
  in the extension slot of the record.
\<close>

record sampled_follicle = follicle +
  SizeSamples :: "real list"

definition claimed_stagnation_guard :: "real \<Rightarrow> real list \<Rightarrow> bool" where
  \<comment> \<open>the most recent size sample is smaller than the oldest one by more than the span\<close>
  "claimed_stagnation_guard maxspan sizes \<longleftrightarrow> hd sizes - last sizes > maxspan"

section \<open>Basic facts\<close>


lemma py_get_nat: "py_get xs (int i) = Some v \<longleftrightarrow> i < length xs \<and> v = xs ! i"
  by (auto simp: py_get_def py_index_def)

lemma py_get_nonneg: "0 \<le> k \<Longrightarrow> py_get xs k = Some v \<longleftrightarrow> nat k < length xs \<and> v = xs ! nat k"
  by (auto simp: py_get_def py_index_def)


lemma set_item_Some: "set_item xs i v = Some ys \<longleftrightarrow> i < length xs \<and> ys = xs[i := v]"
  by (auto simp: set_item_def)

lemma float_div_Some: "float_div a b = Some q \<longleftrightarrow> b \<noteq> 0 \<and> q = a / b"
  by (auto simp: float_div_def)

lemma float_pow_Some: "float_pow x p = Some v \<longleftrightarrow> pow_defined x p \<and> v = np_power x p"
  by (auto simp: float_pow_def)




lemma np_sum_closed:
  assumes "np_sum e xs = Some S" and "\<And>s v. s \<in> set xs \<Longrightarrow> e s = Some v \<Longrightarrow> v = g s"
  shows "S = (\<Sum>s\<leftarrow>xs. g s)"
  using assms
proof (induction xs arbitrary: S)
  case Nil
  then show ?case by simp
next
  case (Cons a xs)
  from Cons.prems(1) obtain v r where
    v: "e a = Some v" and r: "np_sum e xs = Some r" and S: "S = v + r"
    by (auto simp: bind_eq_Some_conv)
  from Cons.prems(2)[OF _ v] have "v = g a" by simp
  moreover from Cons.IH[OF r] Cons.prems(2) have "r = (\<Sum>s\<leftarrow>xs. g s)" by simp
  ultimately show ?case using S by simp
qed


lemma slot_index_bound: "slot_index F i = Some k \<Longrightarrow> k < length (Follicle F)"
  by (auto simp: slot_index_def py_index_def bind_eq_Some_conv split: if_splits)

lemma decline_marks_refl: "decline_marks t S F F"
  by (simp add: decline_marks_def)

lemma decline_marks_slot_index: "decline_marks t S F F' \<Longrightarrow> slot_index F' i = slot_index F i"
  by (simp add: decline_marks_def slot_index_def)

lemma decline_marks_mono: "decline_marks t S F F' \<Longrightarrow> S \<subseteq> S' \<Longrightarrow> decline_marks t S' F F'"
  unfolding decline_marks_def by blast

lemma decline_marks_trans:
  assumes "decline_marks t S F F'" and "decline_marks t S' F' F''"
  shows "decline_marks t (S \<union> S') F F''"
proof -
  have si: "\<And>i. slot_index F' i = slot_index F i"
    using assms(1) by (rule decline_marks_slot_index)
  show ?thesis
    unfolding decline_marks_def
  proof (intro conjI allI impI)
    fix k assume k: "k < length (Follicle F)"
    from assms(1) k have a: "Follicle F' ! k = Follicle F ! k \<or>
        (Destiny (Follicle F ! k) \<noteq> -2 \<and>
         Follicle F' ! k = (Follicle F ! k)\<lparr>Destiny := -2, TimeDecrease := t\<rparr> \<and>
         (\<exists>i \<in> S. slot_index F i = Some k))"
      by (simp add: decline_marks_def)
    from assms(1) k have k': "k < length (Follicle F')" by (simp add: decline_marks_def)
    from assms(2) k' have b: "Follicle F'' ! k = Follicle F' ! k \<or>
        (Destiny (Follicle F' ! k) \<noteq> -2 \<and>
         Follicle F'' ! k = (Follicle F' ! k)\<lparr>Destiny := -2, TimeDecrease := t\<rparr> \<and>
         (\<exists>i \<in> S'. slot_index F' i = Some k))"
      by (simp add: decline_marks_def)
    from a b si show "Follicle F'' ! k = Follicle F ! k \<or>
        (Destiny (Follicle F ! k) \<noteq> -2 \<and>
         Follicle F'' ! k = (Follicle F ! k)\<lparr>Destiny := -2, TimeDecrease := t\<rparr> \<and>
         (\<exists>i \<in> S \<union> S'. slot_index F i = Some k))"
      by auto
  qed (use assms in \<open>simp_all add: decline_marks_def\<close>)
qed

lemma follicle_step_cases:
  assumes "follicle_step t y fsh p4 SumV para parafoll i f F = Some (f', F')"
  obtains
    (test) fFSH fsize X mode where
      "py_get (ActiveFSHS F) (int i) = Some fFSH" "py_get y (int i) = Some fsize"
      "growth_X parafoll p4 fsh SumV fFSH fsize = Some X"
      "py_get para 0 = Some mode" "mode \<noteq> 0"
      "i < length f" "f' = f[i := X]" "F' = F"
  | (decline) fFSH fsize X k where
      "py_get (ActiveFSHS F) (int i) = Some fFSH" "py_get y (int i) = Some fsize"
      "growth_X parafoll p4 fsh SumV fFSH fsize = Some X"
      "py_get para 0 = Some 0" "slot_index F i = Some k"
      "decline_condition parafoll t X (Follicle F ! k) = Some True"
      "i < length f"
      "f' = f[i := - 0.05 * fsize * (t - (if Destiny (Follicle F ! k) \<noteq> -2 then t
                                            else TimeDecrease (Follicle F ! k)))]"
      "F' = F\<lparr>Follicle := (Follicle F)[k :=
               (if Destiny (Follicle F ! k) \<noteq> -2
                then (Follicle F ! k)\<lparr>Destiny := -2, TimeDecrease := t\<rparr>
                else Follicle F ! k)]\<rparr>"
  | (destruct) fFSH fsize X k where
      "py_get (ActiveFSHS F) (int i) = Some fFSH" "py_get y (int i) = Some fsize"
      "growth_X parafoll p4 fsh SumV fFSH fsize = Some X"
      "py_get para 0 = Some 0" "slot_index F i = Some k"
      "decline_condition parafoll t X (Follicle F ! k) = Some False"
      "Destiny (Follicle F ! k) = -3"
      "i < length f" "f' = f[i := - 1000 * fsize]" "F' = F"
  | (grow) fFSH fsize X k where
      "py_get (ActiveFSHS F) (int i) = Some fFSH" "py_get y (int i) = Some fsize"
      "growth_X parafoll p4 fsh SumV fFSH fsize = Some X"
      "py_get para 0 = Some 0" "slot_index F i = Some k"
      "decline_condition parafoll t X (Follicle F ! k) = Some False"
      "Destiny (Follicle F ! k) \<noteq> -3"
      "i < length f" "f' = f[i := X]" "F' = F"
proof -
  from assms obtain fFSH fsize X mode where
    a: "py_get (ActiveFSHS F) (int i) = Some fFSH" "py_get y (int i) = Some fsize"
      "growth_X parafoll p4 fsh SumV fFSH fsize = Some X" "py_get para 0 = Some mode"
    by (auto simp: follicle_step_def bind_eq_Some_conv)
  show thesis
  proof (cases "mode = 0")
    case False
    with assms a show thesis
      by (intro test[of fFSH fsize X mode])
         (auto simp: follicle_step_def set_item_Some bind_eq_Some_conv)
  next
    case True
    with assms a obtain k c where
      b: "slot_index F i = Some k" "decline_condition parafoll t X (Follicle F ! k) = Some c"
      by (auto simp: follicle_step_def bind_eq_Some_conv Let_def)
    show thesis
    proof (cases c)
      case True
      with assms a b \<open>mode = 0\<close> show thesis
        by (intro decline[of fFSH fsize X k])
           (auto simp: follicle_step_def set_item_Some bind_eq_Some_conv Let_def)
    next
      case False
      show thesis
      proof (cases "Destiny (Follicle F ! k) = -3")
        case True
        with assms a b \<open>mode = 0\<close> \<open>\<not> c\<close> show thesis
          by (intro destruct[of fFSH fsize X k])
             (auto simp: follicle_step_def set_item_Some bind_eq_Some_conv Let_def)
      next
        case False
        with assms a b \<open>mode = 0\<close> \<open>\<not> c\<close> show thesis
          by (intro grow[of fFSH fsize X k])
             (auto simp: follicle_step_def set_item_Some bind_eq_Some_conv Let_def)
      qed
    qed
  qed
qed

lemma decline_marks_update:
  assumes "slot_index F i = Some k"
  shows "decline_marks t {i} F (F\<lparr>Follicle := (Follicle F)[k :=
               (if Destiny (Follicle F ! k) \<noteq> -2
                then (Follicle F ! k)\<lparr>Destiny := -2, TimeDecrease := t\<rparr>
                else Follicle F ! k)]\<rparr>)"
proof -
  have "k < length (Follicle F)" using assms by (rule slot_index_bound)
  then show ?thesis
    using assms by (auto simp: decline_marks_def nth_list_update)
qed

lemma follicle_step_frame:
  assumes "follicle_step t y fsh p4 SumV para parafoll i f F = Some (f', F')"
  shows "i < length f" and "length f' = length f" and "\<And>j. j \<noteq> i \<Longrightarrow> f' ! j = f ! j"
    and "decline_marks t {i} F F'"
proof -
  from assms show "i < length f" and "length f' = length f" and "\<And>j. j \<noteq> i \<Longrightarrow> f' ! j = f ! j"
    by (auto elim!: follicle_step_cases)
  from assms show "decline_marks t {i} F F'"
    by (elim follicle_step_cases) (simp_all add: decline_marks_refl decline_marks_update)
qed


lemma follicle_loop_append:
  "follicle_loop t y fsh p4 SumV para parafoll (js @ ks) f F =
     Option.bind (follicle_loop t y fsh p4 SumV para parafoll js f F)
       (\<lambda>(f0, F0). follicle_loop t y fsh p4 SumV para parafoll ks f0 F0)"
proof (induction js arbitrary: f F)
  case Nil
  show ?case by simp
next
  case (Cons j js)
  show ?case
    by (cases "follicle_step t y fsh p4 SumV para parafoll j f F") (auto simp: Cons.IH)
qed

lemma follicle_loop_frame:
  assumes "follicle_loop t y fsh p4 SumV para parafoll js f F = Some (f', F')"
  shows "length f' = length f \<and> (\<forall>j. j \<notin> set js \<longrightarrow> f' ! j = f ! j) \<and>
         decline_marks t (set js) F F'"
  using assms
proof (induction js arbitrary: f F)
  case Nil
  then show ?case by (simp add: decline_marks_refl)
next
  case (Cons i js)
  from Cons.prems obtain f1 F1 where
    st: "follicle_step t y fsh p4 SumV para parafoll i f F = Some (f1, F1)" and
    lp: "follicle_loop t y fsh p4 SumV para parafoll js f1 F1 = Some (f', F')"
    by (auto simp: bind_eq_Some_conv)
  note fr = follicle_step_frame[OF st]
  note ih = Cons.IH[OF lp]
  have "decline_marks t ({i} \<union> set js) F F'"
    using fr(4) ih by (blast intro: decline_marks_trans)
  then have "decline_marks t (set (i # js)) F F'" by simp
  moreover have "length f' = length f" using fr(2) ih by simp
  moreover have "\<forall>j. j \<notin> set (i # js) \<longrightarrow> f' ! j = f ! j"
    using fr(3) ih by simp
  ultimately show ?case by blast
qed

lemma follicle_loop_slot:
  assumes "follicle_loop t y fsh p4 SumV para parafoll [0..<n] f F = Some (f', F')"
    and "i < n"
  obtains f0 F0 f1 F1 where
    "follicle_loop t y fsh p4 SumV para parafoll [0..<i] f F = Some (f0, F0)"
    "follicle_step t y fsh p4 SumV para parafoll i f0 F0 = Some (f1, F1)"
    "follicle_loop t y fsh p4 SumV para parafoll [Suc i..<n] f1 F1 = Some (f', F')"
proof -
  have "[0..<n] = [0..<i] @ i # [Suc i..<n]"
  proof -
    have "[0..<i + (n - i)] = [0..<i] @ [i..<i + (n - i)]"
      by (rule upt_add_eq_append) simp
    then show ?thesis using \<open>i < n\<close> by (simp add: upt_conv_Cons)
  qed
  with assms(1) show thesis
    by (auto simp: follicle_loop_append bind_eq_Some_conv intro: that)
qed


lemma zero_tagged_length: "zero_tagged tags F js x = Some x' \<Longrightarrow> length x' = length x"
  by (induction js arbitrary: x) (auto simp: bind_eq_Some_conv set_item_Some split: if_splits)

lemma active_sizes_none:
  "N \<le> 0 \<Longrightarrow> active_sizes N y F para = Some ([0], y)"
  by (simp add: active_sizes_def)

lemma active_sizes_shape:
  assumes "active_sizes N y F para = Some (x, y1)" and "0 < N"
  shows "length x = min (nat N) (length y) \<and> y1 = x @ drop (nat N) y"
  using assms
  by (auto simp: active_sizes_def bind_eq_Some_conv Let_def dest!: zero_tagged_length
      split: if_splits)

lemma active_sizes_length:
  assumes "active_sizes N y F para = Some (x, y1)"
  shows "length y1 = length y"
proof (cases "0 < N")
  case False
  with assms show ?thesis by (simp add: active_sizes_def)
next
  case True
  from active_sizes_shape[OF assms True] show ?thesis by auto
qed

lemma active_sizes_take:
  assumes "active_sizes N y F para = Some (x, y1)" and "0 < N"
  shows "x = take (nat N) y1"
  using active_sizes_shape[OF assms] by auto

lemma active_sizes_test_mode:
  assumes "py_get para 0 = Some mode" and "mode \<noteq> 0"
  shows "active_sizes N y F para = Some (if 0 < N then take (nat N) y else [0], y)"
  using assms by (simp add: active_sizes_def)

lemma FollicleFunction_SomeE:
  assumes "FollicleFunction ode t y Tovu F para parafoll Par = Some res"
  obtains nfix x y1 E2 P4 dy fsh pf0 SumV f F' where
    "py_get para 1 = Some nfix"
    "active_sizes (int (length y) - nfix) y F para = Some (x, y1)"
    "hormone_levels t x Tovu Par = Some (E2, P4)"
    "ode t y1 Par E2 P4 = Some dy"
    "py_get y1 (int (length y1) - 15) = Some fsh"
    "py_get parafoll 0 = Some pf0"
    "np_sum (\<lambda>s. float_pow s pf0) x = Some SumV"
    "follicle_loop t y1 fsh P4 SumV para parafoll
       [0..<nat (int (length y) - nfix)] dy F = Some (f, F')"
    "res = \<lparr>derivs = f, state_after = y1, registry_after = F'\<rparr>"
  using assms unfolding FollicleFunction_def
  by (auto simp: bind_eq_Some_conv Let_def split: prod.splits)


lemma follicle_loop_pass:
  assumes "follicle_loop t y fsh p4 SumV para parafoll [0..<n] f F = Some (f', F')"
    and "i < n"
  obtains f0 F0 f1 F1 where
    "decline_marks t {0..<i} F F0"
    "follicle_step t y fsh p4 SumV para parafoll i f0 F0 = Some (f1, F1)"
    "f' ! i = f1 ! i"
    "decline_marks t {Suc i..<n} F1 F'"
proof -
  from assms obtain f0 F0 f1 F1 where
    a: "follicle_loop t y fsh p4 SumV para parafoll [0..<i] f F = Some (f0, F0)" and
    b: "follicle_step t y fsh p4 SumV para parafoll i f0 F0 = Some (f1, F1)" and
    c: "follicle_loop t y fsh p4 SumV para parafoll [Suc i..<n] f1 F1 = Some (f', F')"
    by (rule follicle_loop_slot)
  from follicle_loop_frame[OF a] have d: "decline_marks t {0..<i} F F0" by simp
  from follicle_loop_frame[OF c]
  have e: "f' ! i = f1 ! i" and g: "decline_marks t {Suc i..<n} F1 F'" by simp_all
  from d b e g show thesis by (rule that)
qed

lemma decline_marks_untouched:
  assumes "decline_marks t S F F'" and "k < length (Follicle F)"
    and "\<And>j. j \<in> S \<Longrightarrow> slot_index F j \<noteq> Some k"
  shows "Follicle F' ! k = Follicle F ! k"
  using assms unfolding decline_marks_def by blast

lemma FollicleFunction_registry:
  assumes "FollicleFunction ode t y Tovu F para parafoll Par = Some res"
    and "py_get para 1 = Some nfix"
  shows "decline_marks t {0..<nat (int (length y) - nfix)} F (registry_after res)"
proof -
  from assms(1) show ?thesis
  proof (rule FollicleFunction_SomeE)
    fix nfix' x y1 E2 P4 dy fsh pf0 SumV f F'
    assume "py_get para 1 = Some nfix'"
      and lp: "follicle_loop t y1 fsh P4 SumV para parafoll
         [0..<nat (int (length y) - nfix')] dy F = Some (f, F')"
      and res: "res = \<lparr>derivs = f, state_after = y1, registry_after = F'\<rparr>"
    with assms(2) have "nfix' = nfix" by simp
    with follicle_loop_frame[OF lp] res show ?thesis by simp
  qed
qed


lemma FollicleFunction_pass:
  assumes ff: "FollicleFunction ode t y Tovu F para parafoll Par = Some res"
    and nfix: "py_get para 1 = Some nfix"
    and i: "int i < int (length y) - nfix"
  obtains X F0 F1 where
    "growth_of_slot t y Tovu F para parafoll Par i = Some X"
    "i < length y"
    "decline_marks t {0..<i} F F0"
    "decline_marks t {Suc i..<nat (int (length y) - nfix)} F1 (registry_after res)"
    "\<And>mode. py_get para 0 = Some mode \<Longrightarrow> mode \<noteq> 0 \<Longrightarrow> derivs res ! i = X \<and> F1 = F0"
    "py_get para 0 = Some 0 \<Longrightarrow>
       \<exists>k c. slot_index F i = Some k \<and>
         decline_condition parafoll t X (Follicle F0 ! k) = Some c \<and>
         derivs res ! i =
           (if c then - 0.05 * (state_after res ! i) *
                  (t - (if Destiny (Follicle F0 ! k) \<noteq> -2 then t
                        else TimeDecrease (Follicle F0 ! k)))
            else if Destiny (Follicle F0 ! k) = -3 then - 1000 * (state_after res ! i)
            else X) \<and>
         F1 = (if c then F0\<lparr>Follicle := (Follicle F0)[k :=
                  (if Destiny (Follicle F0 ! k) \<noteq> -2
                   then (Follicle F0 ! k)\<lparr>Destiny := -2, TimeDecrease := t\<rparr>
                   else Follicle F0 ! k)]\<rparr>
               else F0)"
proof -
  from ff obtain nfix' x y1 E2 P4 dy fsh pf0 SumV f F' where
    p1: "py_get para 1 = Some nfix'" and
    as: "active_sizes (int (length y) - nfix') y F para = Some (x, y1)" and
    hl: "hormone_levels t x Tovu Par = Some (E2, P4)" and
    fs: "py_get y1 (int (length y1) - 15) = Some fsh" and
    p0: "py_get parafoll 0 = Some pf0" and
    sv: "np_sum (\<lambda>s. float_pow s pf0) x = Some SumV" and
    lp: "follicle_loop t y1 fsh P4 SumV para parafoll
       [0..<nat (int (length y) - nfix')] dy F = Some (f, F')" and
    res: "res = \<lparr>derivs = f, state_after = y1, registry_after = F'\<rparr>"
    by (rule FollicleFunction_SomeE)
  from p1 nfix have [simp]: "nfix' = nfix" by simp
  from i have in': "i < nat (int (length y) - nfix)" by simp
  from lp in' obtain f0 F0 f1 F1 where
    m0: "decline_marks t {0..<i} F F0" and
    st: "follicle_step t y1 fsh P4 SumV para parafoll
           i f0 F0 = Some (f1, F1)" and
    fi: "f ! i = f1 ! i" and
    m1: "decline_marks t {Suc i..<nat (int (length y) - nfix)} F1 F'"
    by (auto elim: follicle_loop_pass)
  from m0 have act: "ActiveFSHS F0 = ActiveFSHS F" and si: "slot_index F0 i = slot_index F i"
    by (simp_all add: decline_marks_def slot_index_def)
  from st obtain fFSH fsize X where
    g: "py_get (ActiveFSHS F0) (int i) = Some fFSH" "py_get y1 (int i) = Some fsize"
       "growth_X parafoll P4 fsh SumV fFSH fsize = Some X"
    by (auto simp: follicle_step_def bind_eq_Some_conv)
  from g(2) have fsize: "fsize = y1 ! i" and ily: "i < length y1" by (simp_all add: py_get_nat)
  have gs: "growth_of_slot t y Tovu F para parafoll Par i = Some X"
    using nfix as hl fs p0 sv g act by (simp add: growth_of_slot_def)
  have il: "i < length y" using ily active_sizes_length[OF as] by simp
  have tst: "derivs res ! i = X \<and> F1 = F0" if "py_get para 0 = Some mode" "mode \<noteq> 0" for mode
    using st
  proof (cases rule: follicle_step_cases)
    case (test fFSH' fsize' X' mode')
    with g have "X' = X" by simp
    with test fi res show ?thesis by simp
  qed (use that in simp_all)
  have nrm: "\<exists>k c. slot_index F i = Some k \<and>
         decline_condition parafoll t X (Follicle F0 ! k) = Some c \<and>
         derivs res ! i =
           (if c then - 0.05 * (state_after res ! i) *
                  (t - (if Destiny (Follicle F0 ! k) \<noteq> -2 then t
                        else TimeDecrease (Follicle F0 ! k)))
            else if Destiny (Follicle F0 ! k) = -3 then - 1000 * (state_after res ! i)
            else X) \<and>
         F1 = (if c then F0\<lparr>Follicle := (Follicle F0)[k :=
                  (if Destiny (Follicle F0 ! k) \<noteq> -2
                   then (Follicle F0 ! k)\<lparr>Destiny := -2, TimeDecrease := t\<rparr>
                   else Follicle F0 ! k)]\<rparr>
               else F0)" if "py_get para 0 = Some 0"
    using st
  proof (cases rule: follicle_step_cases)
    case (test fFSH' fsize' X' mode')
    with that show ?thesis by simp
  next
    case (decline fFSH' fsize' X' k)
    with g have "X' = X" "fsize' = fsize" by simp_all
    with decline fi res si fsize show ?thesis
      by (intro exI[of _ k] exI[of _ True]) simp
  next
    case (destruct fFSH' fsize' X' k)
    with g have "X' = X" "fsize' = fsize" by simp_all
    with destruct fi res si fsize show ?thesis
      by (intro exI[of _ k] exI[of _ False]) simp
  next
    case (grow fFSH' fsize' X' k)
    with g have "X' = X" "fsize' = fsize" by simp_all
    with grow fi res si fsize show ?thesis
      by (intro exI[of _ k] exI[of _ False]) simp
  qed
  from gs il m0 _ tst nrm show thesis
  proof (rule that)
    show "decline_marks t {Suc i..<nat (int (length y) - nfix)} F1 (registry_after res)"
      using m1 res by simp
  qed
qed

lemma FollicleFunction_nfix:
  assumes "FollicleFunction ode t y Tovu F para parafoll Par = Some res"
  shows "py_get para 1 = Some (para ! 1)"
  using assms by (auto elim!: FollicleFunction_SomeE simp: py_get_nonneg)

lemma hill_term_closed:
  assumes "(do { a \<leftarrow> float_pow s p; q \<leftarrow> float_div a (a + c); Some (q * s ^ 2) }) = Some v"
  shows "v = np_power s p / (np_power s p + c) * s ^ 2"
  using assms by (auto simp: bind_eq_Some_conv float_pow_Some float_div_Some)

lemma hormone_levels_closed:
  assumes "hormone_levels t x Tovu Par = Some (E2, P4)"
  shows "E2 = Par ! 74 + (Par ! 58 + Par ! 59 *
             (pi * (\<Sum>s\<leftarrow>x. np_power s (Par ! 56) /
                      (np_power s (Par ! 56) + np_power (Par ! 57) (Par ! 56)) * s ^ 2)))
           + Par ! 60 * exp (- Par ! 61 * (t - (Tovu + 7)) ^ 2)"
    and "P4 = Par ! 75 + Par ! 62 * exp (- Par ! 61 * (t - (Tovu + 7)) ^ 2)"
proof -
  from assms obtain c S where
    c: "float_pow (Par ! 57) (Par ! 56) = Some c" and
    S: "np_sum (\<lambda>s. do { a \<leftarrow> float_pow s (Par ! 56); q \<leftarrow> float_div a (a + c);
                          Some (q * s ^ 2) }) x = Some S" and
    E2: "E2 = Par ! 74 + (Par ! 58 + Par ! 59 * (pi * S))
              + Par ! 60 * exp (- Par ! 61 * (t - (Tovu + 7)) ^ 2)" and
    P4: "P4 = Par ! 75 + Par ! 62 * exp (- Par ! 61 * (t - (Tovu + 7)) ^ 2)"
    by (auto simp: hormone_levels_def bind_eq_Some_conv py_get_nonneg Let_def)
  from c have c': "c = np_power (Par ! 57) (Par ! 56)" by (simp add: float_pow_Some)
  have "S = (\<Sum>s\<leftarrow>x. np_power s (Par ! 56) / (np_power s (Par ! 56) + c) * s ^ 2)"
    using S by (rule np_sum_closed) (rule hill_term_closed)
  with E2 c' show "E2 = Par ! 74 + (Par ! 58 + Par ! 59 *
             (pi * (\<Sum>s\<leftarrow>x. np_power s (Par ! 56) /
                      (np_power s (Par ! 56) + np_power (Par ! 57) (Par ! 56)) * s ^ 2)))
           + Par ! 60 * exp (- Par ! 61 * (t - (Tovu + 7)) ^ 2)"
    by simp
  from P4 show "P4 = Par ! 75 + Par ! 62 * exp (- Par ! 61 * (t - (Tovu + 7)) ^ 2)" .
qed


lemma follicle_loop_test_registry:
  assumes "follicle_loop t y fsh p4 SumV para parafoll js f F = Some (f', F')"
    and "py_get para 0 \<noteq> Some 0"
  shows "F' = F"
  using assms(1)
proof (induction js arbitrary: f F)
  case Nil
  then show ?case by simp
next
  case (Cons i js)
  from Cons.prems obtain f1 F1 where
    st: "follicle_step t y fsh p4 SumV para parafoll i f F = Some (f1, F1)" and
    lp: "follicle_loop t y fsh p4 SumV para parafoll js f1 F1 = Some (f', F')"
    by (auto simp: bind_eq_Some_conv)
  from st assms(2) have "F1 = F" by (auto elim!: follicle_step_cases)
  with Cons.IH[OF lp] show ?case by simp
qed

lemma active_sizes_test_state:
  assumes "active_sizes N y F para = Some (x, y1)" and "py_get para 0 \<noteq> Some 0"
  shows "y1 = y"
  using assms by (auto simp: active_sizes_def bind_eq_Some_conv split: if_splits)

lemma growth_X_closed:
  assumes "growth_X parafoll p4 fsh SumV fFSH fsize = Some X"
  shows "X = fsh ^ 4 / (fsh ^ 4 + fFSH ^ 4) * (parafoll ! 2 - fsize) * fsize *
           (parafoll ! 1 * (1 / (1 + (p4 / 3) ^ 3) + fsh ^ 5 / (0.95 ^ 5 + fsh ^ 5))
            - parafoll ! 4 * (0.55 ^ 10 / (0.55 ^ 10 + fsh ^ 10)) *
              (SumV - parafoll ! 3 * np_power fsize (parafoll ! 0)))"
  using assms
  by (auto simp: growth_X_def bind_eq_Some_conv py_get_nonneg Let_def float_div_Some
      float_pow_Some)

lemma growth_of_slot_closed:
  assumes g: "growth_of_slot t y Tovu F para parafoll Par i = Some X"
    and i: "int i < int (length y) - para ! 1"
    and fsh: "py_get y1 (int (length y) - 15) = Some fsh"
    and as: "active_sizes (int (length y) - para ! 1) y F para = Some (x, y1)"
  shows "X = fsh ^ 4 / (fsh ^ 4 + (ActiveFSHS F ! i) ^ 4) * (parafoll ! 2 - y1 ! i) * (y1 ! i) *
           (parafoll ! 1 * (1 / (1 + ((Par ! 75 + Par ! 62 * exp (- Par ! 61 * (t - (Tovu + 7)) ^ 2)) / 3) ^ 3)
                + fsh ^ 5 / (0.95 ^ 5 + fsh ^ 5))
            - parafoll ! 4 * (0.55 ^ 10 / (0.55 ^ 10 + fsh ^ 10)) *
              ((\<Sum>s\<leftarrow>take (nat (int (length y) - para ! 1)) y1. np_power s (parafoll ! 0))
                 - parafoll ! 3 * np_power (y1 ! i) (parafoll ! 0)))"
proof -
  from g obtain nfix x' y1' E2 P4 fsh' pf0 SumV fFSH fsize where
    p1: "py_get para 1 = Some nfix" and
    as': "active_sizes (int (length y) - nfix) y F para = Some (x', y1')" and
    hl: "hormone_levels t x' Tovu Par = Some (E2, P4)" and
    fs: "py_get y1' (int (length y1') - 15) = Some fsh'" and
    p0: "py_get parafoll 0 = Some pf0" and
    sv: "np_sum (\<lambda>s. float_pow s pf0) x' = Some SumV" and
    ff: "py_get (ActiveFSHS F) (int i) = Some fFSH" and
    sz: "py_get y1' (int i) = Some fsize" and
    gx: "growth_X parafoll P4 fsh' SumV fFSH fsize = Some X"
    by (auto simp: growth_of_slot_def bind_eq_Some_conv split: prod.splits)
  from p1 have nfix: "nfix = para ! 1" by (simp add: py_get_nonneg)
  with as as' have [simp]: "x' = x" "y1' = y1" by simp_all
  from i have pos: "0 < int (length y) - para ! 1" by simp
  have x: "x = take (nat (int (length y) - para ! 1)) y1"
    using as pos by (rule active_sizes_take)
  have "length y1 = length y" using as by (rule active_sizes_length)
  with fs fsh have [simp]: "fsh' = fsh" by simp
  from p0 have [simp]: "pf0 = parafoll ! 0" by (simp add: py_get_nonneg)
  from ff have [simp]: "fFSH = ActiveFSHS F ! i" by (simp add: py_get_nat)
  from sz have [simp]: "fsize = y1 ! i" by (simp add: py_get_nat)
  from hormone_levels_closed(2)[OF hl]
  have [simp]: "P4 = Par ! 75 + Par ! 62 * exp (- Par ! 61 * (t - (Tovu + 7)) ^ 2)" by simp
  have "SumV = (\<Sum>s\<leftarrow>x'. np_power s pf0)"
    using sv by (rule np_sum_closed) (simp add: float_pow_Some)
  with growth_X_closed[OF gx] x show ?thesis by simp
qed

lemma FollicleFunction_growth:
  assumes "FollicleFunction ode t y Tovu F para parafoll Par = Some res"
    and "int i < int (length y) - para ! 1"
  shows "\<exists>X. growth_of_slot t y Tovu F para parafoll Par i = Some X \<and>
           (\<forall>mode. py_get para 0 = Some mode \<and> mode \<noteq> 0 \<longrightarrow> derivs res ! i = X)"
proof (rule FollicleFunction_pass[OF assms(1) FollicleFunction_nfix[OF assms(1)] assms(2)])
  fix X F0 F1
  assume "growth_of_slot t y Tovu F para parafoll Par i = Some X"
    and "\<And>mode. py_get para 0 = Some mode \<Longrightarrow> mode \<noteq> 0 \<Longrightarrow> derivs res ! i = X \<and> F1 = F0"
  then show ?thesis by blast
qed

lemma follicle_step_test_mode:
  assumes "py_get para 0 \<noteq> Some 0" and "ActiveFSHS G = ActiveFSHS F"
  shows "map_option fst (follicle_step t y fsh p4 SumV para parafoll i f F)
       = map_option fst (follicle_step t y fsh p4 SumV para parafoll i f G)"
  using assms by (auto simp: follicle_step_def split: bind_splits)

lemma follicle_loop_test_mode:
  assumes "py_get para 0 \<noteq> Some 0" and "ActiveFSHS G = ActiveFSHS F"
  shows "map_option fst (follicle_loop t y fsh p4 SumV para parafoll js f F)
       = map_option fst (follicle_loop t y fsh p4 SumV para parafoll js f G)"
proof (induction js arbitrary: f)
  case Nil
  show ?case by simp
next
  case (Cons i js)
  note eq = follicle_step_test_mode[OF assms, of t y fsh p4 SumV parafoll i f]
  show ?case
  proof (cases "follicle_step t y fsh p4 SumV para parafoll i f F")
    case None
    with eq have "follicle_step t y fsh p4 SumV para parafoll i f G = None" by simp
    with None show ?thesis by simp
  next
    case (Some a)
    obtain f1 F1 where a: "a = (f1, F1)" by (cases a)
    with Some eq obtain G1 where
      g: "follicle_step t y fsh p4 SumV para parafoll i f G = Some (f1, G1)"
      by (cases "follicle_step t y fsh p4 SumV para parafoll i f G") auto
    from Some a assms(1) have "F1 = F" by (auto elim!: follicle_step_cases)
    moreover from g assms(1) have "G1 = G" by (auto elim!: follicle_step_cases)
    ultimately show ?thesis using Some a g Cons.IH[of f1] by simp
  qed
qed

lemma test_mode_transfer:
  assumes m: "py_get para 0 \<noteq> Some 0" and a: "ActiveFSHS G = ActiveFSHS F"
    and ff: "FollicleFunction ode t y Tovu F para parafoll Par = Some res"
  shows "FollicleFunction ode t y Tovu G para parafoll Par = Some (res\<lparr>registry_after := G\<rparr>)"
proof -
  from ff obtain nfix x y1 E2 P4 dy fsh pf0 SumV f F' where
    p1: "py_get para 1 = Some nfix" and
    as: "active_sizes (int (length y) - nfix) y F para = Some (x, y1)" and
    hl: "hormone_levels t x Tovu Par = Some (E2, P4)" and
    od: "ode t y1 Par E2 P4 = Some dy" and
    fs: "py_get y1 (int (length y1) - 15) = Some fsh" and
    p0: "py_get parafoll 0 = Some pf0" and
    sv: "np_sum (\<lambda>s. float_pow s pf0) x = Some SumV" and
    lp: "follicle_loop t y1 fsh P4 SumV para parafoll
       [0..<nat (int (length y) - nfix)] dy F = Some (f, F')" and
    res: "res = \<lparr>derivs = f, state_after = y1, registry_after = F'\<rparr>"
    by (rule FollicleFunction_SomeE)
  have as': "active_sizes (int (length y) - nfix) y G para = Some (x, y1)"
    using as m by (auto simp: active_sizes_def bind_eq_Some_conv split: if_splits)
  from follicle_loop_test_mode[OF m a, of t y1 fsh P4 SumV
      parafoll "[0..<nat (int (length y) - nfix)]" dy] lp
  obtain G' where lp': "follicle_loop t y1 fsh P4 SumV para parafoll
       [0..<nat (int (length y) - nfix)] dy G = Some (f, G')"
    by (cases "follicle_loop t y1 fsh P4 SumV para parafoll
       [0..<nat (int (length y) - nfix)] dy G") auto
  from follicle_loop_test_registry[OF lp' m] have "G' = G" .
  with p1 as' hl od fs p0 sv lp' res show ?thesis
    by (simp add: FollicleFunction_def)
qed

lemma py_get_first: "py_get xs 0 = Some v \<longleftrightarrow> xs \<noteq> [] \<and> v = hd xs"
  by (cases xs) (auto simp: py_get_def py_index_def)

lemma py_get_last: "py_get xs (- 1) = Some v \<longleftrightarrow> xs \<noteq> [] \<and> v = last xs"
proof (cases "xs = []")
  case True
  then show ?thesis by (simp add: py_get_def py_index_def)
next
  case False
  then have l: "Suc 0 \<le> length xs" by (cases xs) simp_all
  then have "nat (int (length xs) - 1) = length xs - Suc 0" by simp
  with False l show ?thesis
    by (auto simp: py_get_def py_index_def last_conv_nth)
qed

lemma decline_condition_iff:
  assumes "decline_condition parafoll t X r = Some c"
  shows "c \<longleftrightarrow>
     X \<le> parafoll ! 11 \<or> Destiny r = -2 \<or>
     (X \<le> parafoll ! 12 \<and> t - hd (Time r) \<ge> parafoll ! 14 \<and> Destiny r = 3) \<or>
     (X \<le> parafoll ! 12 \<and> t - hd (Time r) \<ge> parafoll ! 13 \<and> Destiny r = -1) \<or>
     (Destiny r = 3 \<and> t - TimeDecrease r \<ge> parafoll ! 10) \<or>
     hd (Time r) - last (Time r) > parafoll ! 14"
  using assms
  by (auto simp: decline_condition_def bind_eq_Some_conv py_get_nonneg py_get_first py_get_last
      split: if_splits)

lemma FollicleFunction_transition:
  assumes ff: "FollicleFunction ode t y Tovu F para parafoll Par = Some res"
    and mode: "py_get para 0 = Some 0"
    and i: "int i < int (length y) - para ! 1"
    and k: "slot_index F i = Some k"
    and uniq: "\<forall>j. int j < int (length y) - para ! 1 \<and> j \<noteq> i \<longrightarrow> slot_index F j \<noteq> Some k"
  shows "\<exists>X c. growth_of_slot t y Tovu F para parafoll Par i = Some X \<and>
     decline_condition parafoll t X (Follicle F ! k) = Some c \<and>
     derivs res ! i =
       (if c then - 0.05 * (state_after res ! i) *
              (t - (if Destiny (Follicle F ! k) \<noteq> -2 then t else TimeDecrease (Follicle F ! k)))
        else if Destiny (Follicle F ! k) = -3 then - 1000 * (state_after res ! i)
        else X) \<and>
     Follicle (registry_after res) ! k =
       (if c \<and> Destiny (Follicle F ! k) \<noteq> -2
        then (Follicle F ! k)\<lparr>Destiny := -2, TimeDecrease := t\<rparr>
        else Follicle F ! k)"
proof (rule FollicleFunction_pass[OF ff FollicleFunction_nfix[OF ff] i])
  fix X F0 F1
  assume g: "growth_of_slot t y Tovu F para parafoll Par i = Some X"
    and m0: "decline_marks t {0..<i} F F0"
    and m1: "decline_marks t {Suc i..<nat (int (length y) - para ! 1)} F1 (registry_after res)"
    and nrm: "py_get para 0 = Some 0 \<Longrightarrow>
       \<exists>k c. slot_index F i = Some k \<and>
         decline_condition parafoll t X (Follicle F0 ! k) = Some c \<and>
         derivs res ! i =
           (if c then - 0.05 * (state_after res ! i) *
                  (t - (if Destiny (Follicle F0 ! k) \<noteq> -2 then t
                        else TimeDecrease (Follicle F0 ! k)))
            else if Destiny (Follicle F0 ! k) = -3 then - 1000 * (state_after res ! i)
            else X) \<and>
         F1 = (if c then F0\<lparr>Follicle := (Follicle F0)[k :=
                  (if Destiny (Follicle F0 ! k) \<noteq> -2
                   then (Follicle F0 ! k)\<lparr>Destiny := -2, TimeDecrease := t\<rparr>
                   else Follicle F0 ! k)]\<rparr>
               else F0)"
  have kl: "k < length (Follicle F)" using k by (rule slot_index_bound)
  have r0: "Follicle F0 ! k = Follicle F ! k"
  proof (rule decline_marks_untouched[OF m0 kl])
    fix j assume "j \<in> {0..<i}"
    with i have "int j < int (length y) - para ! 1 \<and> j \<noteq> i" by auto
    with uniq show "slot_index F j \<noteq> Some k" by blast
  qed
  from nrm[OF mode] k r0 obtain c where
    c: "decline_condition parafoll t X (Follicle F ! k) = Some c" and
    d: "derivs res ! i =
           (if c then - 0.05 * (state_after res ! i) *
                  (t - (if Destiny (Follicle F ! k) \<noteq> -2 then t
                        else TimeDecrease (Follicle F ! k)))
            else if Destiny (Follicle F ! k) = -3 then - 1000 * (state_after res ! i)
            else X)" and
    f1: "F1 = (if c then F0\<lparr>Follicle := (Follicle F0)[k :=
                  (if Destiny (Follicle F ! k) \<noteq> -2
                   then (Follicle F ! k)\<lparr>Destiny := -2, TimeDecrease := t\<rparr>
                   else Follicle F ! k)]\<rparr>
               else F0)"
    by auto
  from m0 have l0: "length (Follicle F0) = length (Follicle F)" by (simp add: decline_marks_def)
  from f1 l0 have l1: "length (Follicle F1) = length (Follicle F)" by (simp split: if_splits)
  from f1 have a1: "Active F1 = Active F0" by (simp split: if_splits)
  from m0 have a0: "Active F0 = Active F" by (simp add: decline_marks_def)
  have si: "\<And>j. slot_index F1 j = slot_index F j"
    using a0 a1 l1 by (simp add: slot_index_def)
  have r1: "Follicle F1 ! k =
       (if c \<and> Destiny (Follicle F ! k) \<noteq> -2
        then (Follicle F ! k)\<lparr>Destiny := -2, TimeDecrease := t\<rparr>
        else Follicle F ! k)"
    using f1 r0 kl l0 by (simp split: if_splits)
  have "Follicle (registry_after res) ! k = Follicle F1 ! k"
  proof (rule decline_marks_untouched[OF m1])
    show "k < length (Follicle F1)" using kl l1 by simp
  next
    fix j assume "j \<in> {Suc i..<nat (int (length y) - para ! 1)}"
    then have "int j < int (length y) - para ! 1 \<and> j \<noteq> i" by auto
    with uniq si show "slot_index F1 j \<noteq> Some k" by simp
  qed
  with r1 g c d show ?thesis by auto
qed

lemma zero_tagged_entries:
  "zero_tagged tags F js x = Some x' \<Longrightarrow> x' ! j = x ! j \<or> x' ! j = 0"
proof (induction js arbitrary: x)
  case Nil
  then show ?case by simp
next
  case (Cons i js)
  from Cons.prems obtain k x1 where
    x1: "(if Destiny (Follicle F ! k) \<in> set tags then set_item x i 0 else Some x) = Some x1" and
    rest: "zero_tagged tags F js x1 = Some x'"
    by (auto simp: bind_eq_Some_conv)
  from x1 have "x1 ! j = x ! j \<or> x1 ! j = 0"
    by (cases "j = i") (auto simp: set_item_Some split: if_splits)
  with Cons.IH[OF rest] show ?case by auto
qed

lemma zero_tagged_hits:
  assumes "zero_tagged tags F js x = Some x'" and "i \<in> set js"
    and "slot_index F i = Some k" and "Destiny (Follicle F ! k) \<in> set tags"
  shows "i < length x \<and> x' ! i = 0"
  using assms(1,2)
proof (induction js arbitrary: x)
  case Nil
  then show ?case by simp
next
  case (Cons j js)
  from Cons.prems(1) obtain k' x1 where
    k': "slot_index F j = Some k'" and
    x1: "(if Destiny (Follicle F ! k') \<in> set tags then set_item x j 0 else Some x) = Some x1" and
    rest: "zero_tagged tags F js x1 = Some x'"
    by (auto simp: bind_eq_Some_conv)
  from x1 have len: "length x1 = length x" by (auto simp: set_item_Some split: if_splits)
  show ?case
  proof (cases "i = j")
    case True
    with k' assms(3) have "k' = k" by simp
    with x1 assms(4) True have "i < length x" "x1 ! i = 0" by (auto simp: set_item_Some)
    with zero_tagged_entries[OF rest, of i] show ?thesis by auto
  next
    case False
    with Cons.prems(2) have "i \<in> set js" by simp
    from Cons.IH[OF rest this] len show ?thesis by simp
  qed
qed

lemma active_sizes_zeroed:
  assumes as: "active_sizes N y F para = Some (x, y1)" and mode: "py_get para 0 = Some 0"
    and i: "int i < N" and k: "slot_index F i = Some k"
    and d: "Destiny (Follicle F ! k) \<in> {-2, -3, 4}"
  shows "y1 ! i = 0"
proof -
  from i have pos: "0 < N" and mem: "i \<in> set [0..<nat N]" by auto
  from as pos mode obtain x1 where
    x1: "zero_tagged [-2, -3] F [0..<nat N] (take (nat N) y) = Some x1" and
    x2: "zero_tagged [4] F [0..<nat N] x1 = Some x" and
    y1: "y1 = x @ drop (nat N) y"
    by (auto simp: active_sizes_def bind_eq_Some_conv Let_def)
  have l: "length x = length x1" using x2 by (rule zero_tagged_length)
  have "i < length x \<and> x ! i = 0"
  proof (cases "Destiny (Follicle F ! k) = 4")
    case True
    then have "Destiny (Follicle F ! k) \<in> set [4]" by simp
    from zero_tagged_hits[OF x2 mem k this] l show ?thesis by simp
  next
    case False
    with d have "Destiny (Follicle F ! k) \<in> set [-2, -3]" by auto
    from zero_tagged_hits[OF x1 mem k this]
    have a: "i < length (take (nat N) y)" "x1 ! i = 0" by simp_all
    from a(1) zero_tagged_length[OF x1] l have "i < length x" by simp
    moreover from zero_tagged_entries[OF x2, of i] a(2) have "x ! i = 0" by auto
    ultimately show ?thesis by simp
  qed
  with y1 show ?thesis by (simp add: nth_append)
qed

lemma declining_slot_gets_zero:
  assumes ff: "FollicleFunction ode t y Tovu F para parafoll Par = Some res"
    and mode: "py_get para 0 = Some 0"
    and i: "int i < int (length y) - para ! 1"
    and k: "slot_index F i = Some k"
    and d: "Destiny (Follicle F ! k) = -2"
  shows "state_after res ! i = 0 \<and> derivs res ! i = 0"
proof -
  note nf = FollicleFunction_nfix[OF ff]
  from ff nf obtain x y1 f F' where
    as: "active_sizes (int (length y) - para ! 1) y F para = Some (x, y1)" and
    res: "res = \<lparr>derivs = f, state_after = y1, registry_after = F'\<rparr>"
    by (auto elim!: FollicleFunction_SomeE)
  from d have "Destiny (Follicle F ! k) \<in> {-2, -3, 4}" by simp
  from active_sizes_zeroed[OF as mode i k this] res
  have s: "state_after res ! i = 0" by simp
  have "derivs res ! i = 0"
  proof (rule FollicleFunction_pass[OF ff nf i])
    fix X F0 F1
    assume m0: "decline_marks t {0..<i} F F0"
      and nrm: "py_get para 0 = Some 0 \<Longrightarrow>
       \<exists>k c. slot_index F i = Some k \<and>
         decline_condition parafoll t X (Follicle F0 ! k) = Some c \<and>
         derivs res ! i =
           (if c then - 0.05 * (state_after res ! i) *
                  (t - (if Destiny (Follicle F0 ! k) \<noteq> -2 then t
                        else TimeDecrease (Follicle F0 ! k)))
            else if Destiny (Follicle F0 ! k) = -3 then - 1000 * (state_after res ! i)
            else X) \<and>
         F1 = (if c then F0\<lparr>Follicle := (Follicle F0)[k :=
                  (if Destiny (Follicle F0 ! k) \<noteq> -2
                   then (Follicle F0 ! k)\<lparr>Destiny := -2, TimeDecrease := t\<rparr>
                   else Follicle F0 ! k)]\<rparr>
               else F0)"
    have kl: "k < length (Follicle F)" using k by (rule slot_index_bound)
    with m0 d have r0: "Follicle F0 ! k = Follicle F ! k"
      unfolding decline_marks_def by blast
    from nrm[OF mode] k r0 obtain c where
      c: "decline_condition parafoll t X (Follicle F ! k) = Some c" and
      dv: "derivs res ! i =
           (if c then - 0.05 * (state_after res ! i) *
                  (t - (if Destiny (Follicle F ! k) \<noteq> -2 then t
                        else TimeDecrease (Follicle F ! k)))
            else if Destiny (Follicle F ! k) = -3 then - 1000 * (state_after res ! i)
            else X)"
      by auto
    from decline_condition_iff[OF c] d have c by simp
    with dv s show "derivs res ! i = 0" by simp
  qed
  with s show ?thesis by simp
qed

lemma atretic_slot_gets_zero:
  assumes ff: "FollicleFunction ode t y Tovu F para parafoll Par = Some res"
    and mode: "py_get para 0 = Some 0"
    and i: "int i < int (length y) - para ! 1"
    and k: "slot_index F i = Some k"
    and d: "Destiny (Follicle F ! k) = -3"
  shows "state_after res ! i = 0 \<and> derivs res ! i = 0"
proof -
  note nf = FollicleFunction_nfix[OF ff]
  from ff nf obtain x y1 f F' where
    as: "active_sizes (int (length y) - para ! 1) y F para = Some (x, y1)" and
    res: "res = \<lparr>derivs = f, state_after = y1, registry_after = F'\<rparr>"
    by (auto elim!: FollicleFunction_SomeE)
  from d have "Destiny (Follicle F ! k) \<in> {-2, -3, 4}" by simp
  from active_sizes_zeroed[OF as mode i k this] res
  have s: "state_after res ! i = 0" by simp
  have "derivs res ! i = 0"
  proof (rule FollicleFunction_pass[OF ff nf i])
    fix X F0 F1
    assume m0: "decline_marks t {0..<i} F F0"
      and nrm: "py_get para 0 = Some 0 \<Longrightarrow>
       \<exists>k c. slot_index F i = Some k \<and>
         decline_condition parafoll t X (Follicle F0 ! k) = Some c \<and>
         derivs res ! i =
           (if c then - 0.05 * (state_after res ! i) *
                  (t - (if Destiny (Follicle F0 ! k) \<noteq> -2 then t
                        else TimeDecrease (Follicle F0 ! k)))
            else if Destiny (Follicle F0 ! k) = -3 then - 1000 * (state_after res ! i)
            else X) \<and>
         F1 = (if c then F0\<lparr>Follicle := (Follicle F0)[k :=
                  (if Destiny (Follicle F0 ! k) \<noteq> -2
                   then (Follicle F0 ! k)\<lparr>Destiny := -2, TimeDecrease := t\<rparr>
                   else Follicle F0 ! k)]\<rparr>
               else F0)"
    have kl: "k < length (Follicle F)" using k by (rule slot_index_bound)
    with m0 d have r0: "Destiny (Follicle F0 ! k) = -3 \<or> Destiny (Follicle F0 ! k) = -2"
      unfolding decline_marks_def by auto
    from nrm[OF mode] k obtain c where
      c: "decline_condition parafoll t X (Follicle F0 ! k) = Some c" and
      dv: "derivs res ! i =
           (if c then - 0.05 * (state_after res ! i) *
                  (t - (if Destiny (Follicle F0 ! k) \<noteq> -2 then t
                        else TimeDecrease (Follicle F0 ! k)))
            else if Destiny (Follicle F0 ! k) = -3 then - 1000 * (state_after res ! i)
            else X)"
      by auto
    from decline_condition_iff[OF c] r0 have "c \<or> Destiny (Follicle F0 ! k) = -3" by auto
    with dv s show "derivs res ! i = 0" by auto
  qed
  with s show ?thesis by simp
qed

lemma silenced_iff:
  "silenced F i \<longleftrightarrow>
     (\<exists>k. slot_index F i = Some k \<and> Destiny (Follicle F ! k) \<in> {-2, -3, 4})"
  by (auto simp: silenced_def split: option.splits)

lemma zero_tagged_nth:
  assumes "zero_tagged tags F js x = Some x'"
  shows "x' ! j = (if j \<in> set js \<and> (\<exists>k. slot_index F j = Some k \<and>
                         Destiny (Follicle F ! k) \<in> set tags) then 0 else x ! j)"
  using assms
proof (induction js arbitrary: x)
  case Nil
  then show ?case by simp
next
  case (Cons i js)
  from Cons.prems obtain k x1 where
    k: "slot_index F i = Some k" and
    x1: "(if Destiny (Follicle F ! k) \<in> set tags then set_item x i 0 else Some x) = Some x1" and
    rest: "zero_tagged tags F js x1 = Some x'"
    by (auto simp: bind_eq_Some_conv)
  have a: "x1 ! j = (if j = i \<and> Destiny (Follicle F ! k) \<in> set tags then 0 else x ! j)"
    using x1 by (auto simp: set_item_Some split: if_splits)
  from Cons.IH[OF rest] a k show ?case by auto
qed

lemma active_sizes_contributing:
  assumes as: "active_sizes N y F para = Some (x, y1)" and pos: "0 < N"
    and le: "nat N \<le> length y"
  shows "x = map (\<lambda>j. if py_get para 0 = Some 0 \<and> silenced F j then 0 else y ! j) [0..<nat N]"
proof (cases "py_get para 0 = Some 0")
  case False
  with as pos have "x = take (nat N) y"
    by (auto simp: active_sizes_def bind_eq_Some_conv split: if_splits)
  with False le show ?thesis
    by (auto intro!: nth_equalityI)
next
  case True
  with as pos obtain x1 where
    x1: "zero_tagged [-2, -3] F [0..<nat N] (take (nat N) y) = Some x1" and
    x2: "zero_tagged [4] F [0..<nat N] x1 = Some x"
    by (auto simp: active_sizes_def bind_eq_Some_conv Let_def)
  have l: "length x = nat N"
    using zero_tagged_length[OF x1] zero_tagged_length[OF x2] le by simp
  show ?thesis
  proof (rule nth_equalityI)
    show "length x = length (map (\<lambda>j. if py_get para 0 = Some 0 \<and> silenced F j then 0 else y ! j)
        [0..<nat N])"
      using l by simp
  next
    fix j assume "j < length x"
    with l have j: "j < nat N" by simp
    show "x ! j = map (\<lambda>j. if py_get para 0 = Some 0 \<and> silenced F j then 0 else y ! j)
        [0..<nat N] ! j"
      using zero_tagged_nth[OF x1, of j] zero_tagged_nth[OF x2, of j] j True le
      by (auto simp: silenced_iff)
  qed
qed

lemma FollicleFunction_slots_fit:
  assumes "FollicleFunction ode t y Tovu F para parafoll Par = Some res"
  shows "nat (int (length y) - para ! 1) \<le> length y"
proof (rule ccontr)
  assume "\<not> nat (int (length y) - para ! 1) \<le> length y"
  then have i: "int (length y) < int (length y) - para ! 1" by linarith
  have "length y < length y"
    by (rule FollicleFunction_pass[OF assms FollicleFunction_nfix[OF assms] i])
  then show False by simp
qed

section \<open>Runs on concrete inputs\<close>

text \<open>
  One follicle and fifteen hormone variables; the hormone model returns the zero vector and
  every entry of \<^verbatim>\<open>Par\<close> is zero, so that both hormone levels are zero. The last run
  has two follicles, one of them tagged \<open>4\<close>, a Hill exponent \<open>2\<close>, non-zero hormone
  coefficients, and a hormone model that returns \<open>E2 - P4\<close> in every slot. Each run is
  evaluated by rewriting with the definitions.
\<close>

lemmas run_defs = FollicleFunction_def py_get_def py_index_def active_sizes_def slot_index_def
  set_item_def hormone_levels_def np_power_def pow_defined_def float_pow_def float_div_def
  follicle_step_def growth_X_def decline_condition_def numeral_eq_Suc nth_Cons'

lemma ode_zero_keeps_length: "ode_keeps_length (\<lambda>t y Par E2 P4. Some (map (\<lambda>v. 0) y))"
  by (auto simp: ode_keeps_length_def)

lemma run_marking:
  "FollicleFunction (\<lambda>t y Par E2 P4. Some (map (\<lambda>v. 0) y)) 15 (25 # replicate 15 1) 0
     \<lparr>Follicle = [\<lparr>Destiny = -1, Time = [0], TimeDecrease = 0\<rparr>], Active = [1], ActiveFSHS = [1]\<rparr>
     [0, 15] [1, 1, 20, 1, 0, 0, 0, 0, 0, 0, 100, 0, 0, 100, 100] (replicate 76 0)
   = Some \<lparr>derivs = replicate 16 0, state_after = 25 # replicate 15 1,
            registry_after = \<lparr>Follicle = [\<lparr>Destiny = -2, Time = [0], TimeDecrease = 15\<rparr>],
                               Active = [1], ActiveFSHS = [1]\<rparr>\<rparr>"
  by (simp add: run_defs)

lemma run_declining:
  "FollicleFunction (\<lambda>t y Par E2 P4. Some (map (\<lambda>v. 0) y)) 15 (2 # replicate 15 1) 0
     \<lparr>Follicle = [\<lparr>Destiny = -2, Time = [0], TimeDecrease = 10\<rparr>], Active = [1], ActiveFSHS = [1]\<rparr>
     [0, 15] [1, 1, 20, 1, 0, 0, 0, 0, 0, 0, 100, 0, 0, 100, 100] (replicate 76 0)
   = Some \<lparr>derivs = replicate 16 0, state_after = 0 # replicate 15 1,
            registry_after = \<lparr>Follicle = [\<lparr>Destiny = -2, Time = [0], TimeDecrease = 10\<rparr>],
                               Active = [1], ActiveFSHS = [1]\<rparr>\<rparr>"
  by (simp add: run_defs)

lemma run_test_mode:
  "FollicleFunction (\<lambda>t y Par E2 P4. Some (map (\<lambda>v. 0) y)) 15 (2 # 0.55 # replicate 14 0) 0
     \<lparr>Follicle = [\<lparr>Destiny = -1, Time = [0], TimeDecrease = 0\<rparr>], Active = [1], ActiveFSHS = [0.55]\<rparr>
     [1, 15] [1, 0, 3, 0, 2, 0, 0, 0, 0, 0, 100, 0, 0, 100, 100] (replicate 76 0)
   = Some \<lparr>derivs = -2 # replicate 15 0, state_after = 2 # 0.55 # replicate 14 0,
            registry_after = \<lparr>Follicle = [\<lparr>Destiny = -1, Time = [0], TimeDecrease = 0\<rparr>],
                               Active = [1], ActiveFSHS = [0.55]\<rparr>\<rparr>"
  by (simp add: run_defs)

lemma run_atretic_remarked:
  "FollicleFunction (\<lambda>t y Par E2 P4. Some (map (\<lambda>v. 0) y)) 15 (2 # replicate 15 1) 0
     \<lparr>Follicle = [\<lparr>Destiny = -3, Time = [0], TimeDecrease = 0\<rparr>], Active = [1], ActiveFSHS = [1]\<rparr>
     [0, 15] [1, 1, 20, 1, 0, 0, 0, 0, 0, 0, 100, 0, 0, 100, 100] (replicate 76 0)
   = Some \<lparr>derivs = replicate 16 0, state_after = 0 # replicate 15 1,
            registry_after = \<lparr>Follicle = [\<lparr>Destiny = -2, Time = [0], TimeDecrease = 15\<rparr>],
                               Active = [1], ActiveFSHS = [1]\<rparr>\<rparr>"
  by (simp add: run_defs)

lemma run_atretic_kept:
  "FollicleFunction (\<lambda>t y Par E2 P4. Some (map (\<lambda>v. 0) y)) 15 (2 # replicate 15 1) 0
     \<lparr>Follicle = [\<lparr>Destiny = -3, Time = [0], TimeDecrease = 0\<rparr>], Active = [1], ActiveFSHS = [1]\<rparr>
     [0, 15] [1, 1, 20, 1, 0, 0, 0, 0, 0, 0, 100, -1, -1, 100, 100] (replicate 76 0)
   = Some \<lparr>derivs = replicate 16 0, state_after = 0 # replicate 15 1,
            registry_after = \<lparr>Follicle = [\<lparr>Destiny = -3, Time = [0], TimeDecrease = 0\<rparr>],
                               Active = [1], ActiveFSHS = [1]\<rparr>\<rparr>"
  by (simp add: run_defs)

lemma run_time_guard:
  "FollicleFunction (\<lambda>t y Par E2 P4. Some (map (\<lambda>v. 0) y)) 6 (2 # replicate 15 1) 0
     \<lparr>Follicle = [\<lparr>Destiny = -1, Time = [5, 1], TimeDecrease = 0\<rparr>], Active = [1], ActiveFSHS = [1]\<rparr>
     [0, 15] [1, 1, 20, 1, 0, 0, 0, 0, 0, 0, 100, 0, 0, 100, 3] (replicate 76 0)
   = Some \<lparr>derivs = replicate 16 0, state_after = 2 # replicate 15 1,
            registry_after = \<lparr>Follicle = [\<lparr>Destiny = -2, Time = [5, 1], TimeDecrease = 6\<rparr>],
                               Active = [1], ActiveFSHS = [1]\<rparr>\<rparr>"
  by (simp add: run_defs)

lemma run_sizes_dropped:
  "map_option registry_after
     (FollicleFunction (\<lambda>t y Par E2 P4. Some (map (\<lambda>v. 0) y)) 6 (2 # replicate 15 1) 0
        \<lparr>Follicle = [\<lparr>Destiny = -1, Time = [1, 5], TimeDecrease = 0, SizeSamples = [10, 2]\<rparr>],
         Active = [1], ActiveFSHS = [1]\<rparr>
        [0, 15] [1, 1, 20, 1, 0, 0, 0, 0, 0, 0, 100, 0, 0, 100, 3] (replicate 76 0))
   = Some \<lparr>Follicle = [\<lparr>Destiny = -1, Time = [1, 5], TimeDecrease = 0, SizeSamples = [10, 2]\<rparr>],
            Active = [1], ActiveFSHS = [1]\<rparr>"
  by (simp add: run_defs)

lemma one_slot:
  "py_get [0, 15] 0 = Some (0::int)"
  "int 0 < int (length (2 # replicate 15 (1::real))) - [0, 15] ! 1"
  "slot_index \<lparr>Follicle = [r], Active = [1], ActiveFSHS = [a]\<rparr> 0 = Some 0"
  "\<forall>j. int j < int (length (2 # replicate 15 (1::real))) - [0, 15] ! 1 \<and> j \<noteq> 0
       \<longrightarrow> slot_index \<lparr>Follicle = [r], Active = [1], ActiveFSHS = [a]\<rparr> j \<noteq> Some 0"
  by (auto simp: py_get_def py_index_def slot_index_def)

lemma levels_denominator:
  "1 + (8 + 5 * exp (- 1)) * ((8 + 5 * exp (- 1)) * (8 + 5 * exp (- 1))) / 27 \<noteq> (0::real)"
proof -
  have "0 < 8 + 5 * exp (- 1 :: real)" by (simp add: add_pos_pos)
  then have "0 < (8 + 5 * exp (- 1 :: real)) * ((8 + 5 * exp (- 1)) * (8 + 5 * exp (- 1))) / 27"
    by simp
  then have "0 < 1 + (8 + 5 * exp (- 1 :: real)) * ((8 + 5 * exp (- 1)) * (8 + 5 * exp (- 1))) / 27"
    by linarith
  then show ?thesis by linarith
qed

lemma run_two_follicles:
  "FollicleFunction (\<lambda>t y Par E2 P4. Some (map (\<lambda>v. E2 - P4) y)) 8 (3 # 4 # replicate 15 1) 0
     \<lparr>Follicle = [\<lparr>Destiny = -1, Time = [0], TimeDecrease = 0\<rparr>,
                  \<lparr>Destiny = 4, Time = [0], TimeDecrease = 0\<rparr>], Active = [1, 2], ActiveFSHS = [1, 1]\<rparr>
     [0, 15] [1, 0, 20, 1, 0, 0, 0, 0, 0, 0, 100, 0, 0, 100, 100]
     (replicate 56 0 @ [2, 1, 4, 9, 3, 1, 5] @ replicate 11 0 @ [7, 8])
   = Some \<lparr>derivs = 0 # 0 # replicate 15 (3 + (729 * pi / 10 - 2 * exp (- 1))),
            state_after = 3 # 0 # replicate 15 1,
            registry_after =
              \<lparr>Follicle = [\<lparr>Destiny = -2, Time = [0], TimeDecrease = 8\<rparr>,
                           \<lparr>Destiny = -2, Time = [0], TimeDecrease = 8\<rparr>],
               Active = [1, 2], ActiveFSHS = [1, 1]\<rparr>\<rparr>"
  by (simp add: run_defs nth_append levels_denominator Let_def)

section \<open>The claims\<close>

text \<open>
  C1 (amended). A call changes the registry only by marking follicles for decline: the lists
  \<^verbatim>\<open>Active\<close> and \<^verbatim>\<open>ActiveFSHS\<close> and the number of records stay, and each record either
  stays as it was or, its destiny not having been \<open>-2\<close> and an active slot addressing it, comes
  back with destiny \<open>-2\<close> and \<^verbatim>\<open>TimeDecrease\<close> \<open>t\<close>, all other fields kept. A call in test
  mode (\<^verbatim>\<open>para[0]\<close> other than \<open>0\<close>) changes neither the registry nor the state vector.
\<close>

theorem registry_changes_by_decline_marks:
  assumes "FollicleFunction ode t y Tovu F para parafoll Par = Some res"
  shows "decline_marks t {0..<nat (int (length y) - para ! 1)} F (registry_after res) \<and>
         (py_get para 0 \<noteq> Some 0 \<longrightarrow> registry_after res = F \<and> state_after res = y)"
proof -
  note nf = FollicleFunction_nfix[OF assms]
  have a: "decline_marks t {0..<nat (int (length y) - para ! 1)} F (registry_after res)"
    using assms nf by (rule FollicleFunction_registry)
  have b: "registry_after res = F \<and> state_after res = y" if "py_get para 0 \<noteq> Some 0"
  proof -
    from assms obtain nfix x y1 E2 P4 dy fsh pf0 SumV f F' where
      as: "active_sizes (int (length y) - nfix) y F para = Some (x, y1)" and
      lp: "follicle_loop t y1 fsh P4 SumV para parafoll
         [0..<nat (int (length y) - nfix)] dy F = Some (f, F')" and
      res: "res = \<lparr>derivs = f, state_after = y1, registry_after = F'\<rparr>"
      by (rule FollicleFunction_SomeE)
    from follicle_loop_test_registry[OF lp that] active_sizes_test_state[OF as that] res
    show ?thesis by simp
  qed
  from a b show ?thesis by blast
qed

theorem registry_changes_by_decline_marks_witness:
  "decline_marks 15 {0..<nat (int (length (25 # replicate 15 (1::real))) - [0, 15] ! 1)}
     \<lparr>Follicle = [\<lparr>Destiny = -1, Time = [0], TimeDecrease = 0\<rparr>], Active = [1], ActiveFSHS = [1]\<rparr>
     \<lparr>Follicle = [\<lparr>Destiny = -2, Time = [0], TimeDecrease = 15\<rparr>], Active = [1], ActiveFSHS = [1]\<rparr>"
  using registry_changes_by_decline_marks[OF run_marking] by simp

text \<open>
  The claim as stated, that a call in normal mode leaves the registry as it was, fails for a
  growing follicle of size \<open>25\<close> above the maximal size \<open>20\<close>: its growth is negative, below
  the threshold \<^verbatim>\<open>parafoll[11] = 0\<close>, and lines 77 and 78 write destiny \<open>-2\<close> and
  \<^verbatim>\<open>TimeDecrease = 15\<close> into its record.
\<close>

theorem registry_unchanged_counterexample:
  "FollicleFunction (\<lambda>t y Par E2 P4. Some (map (\<lambda>v. 0) y)) 15 (25 # replicate 15 1) 0
     \<lparr>Follicle = [\<lparr>Destiny = -1, Time = [0], TimeDecrease = 0\<rparr>], Active = [1], ActiveFSHS = [1]\<rparr>
     [0, 15] [1, 1, 20, 1, 0, 0, 0, 0, 0, 0, 100, 0, 0, 100, 100] (replicate 76 0)
   = Some \<lparr>derivs = replicate 16 0, state_after = 25 # replicate 15 1,
            registry_after = \<lparr>Follicle = [\<lparr>Destiny = -2, Time = [0], TimeDecrease = 15\<rparr>],
                               Active = [1], ActiveFSHS = [1]\<rparr>\<rparr>
   \<and> \<lparr>Follicle = [\<lparr>Destiny = -2, Time = [0], TimeDecrease = 15\<rparr>], Active = [1], ActiveFSHS = [1::real]\<rparr>
     \<noteq> \<lparr>Follicle = [\<lparr>Destiny = -1, Time = [0], TimeDecrease = 0\<rparr>], Active = [1], ActiveFSHS = [1]\<rparr>"
  using run_marking by simp

text \<open>
  C2 (amended). For every active follicle \<open>i\<close> the raw growth expression is
  \<open>X = ffsh * (xi - size\<^sub>i) * size\<^sub>i * (gamma - kappa * (SumV - parafoll[3] * size\<^sub>i ^ p))\<close>:
  the own share taken out of the competition sum is the fraction \<^verbatim>\<open>parafoll[3]\<close> of the
  follicle's own term. Here \<open>p\<close> is \<^verbatim>\<open>parafoll[0]\<close>, \<open>xi\<close> is \<^verbatim>\<open>parafoll[2]\<close>, the sizes
  are the follicle slots of the state vector as the loop reads them, \<open>SumV\<close> is the sum of
  \<open>size ^ p\<close> over them, \<open>gamma\<close> falls with \<open>P4\<close> and rises with \<open>fsh ^ 5\<close>, \<open>kappa\<close> falls with
  \<open>fsh ^ 10\<close>, and \<open>ffsh\<close> is \<open>fsh ^ 4\<close> against the follicle's own sensitivity. In test mode
  this \<open>X\<close> is the value returned for slot \<open>i\<close>, and the sizes are those of the input.
\<close>

theorem growth_expression:
  assumes "FollicleFunction ode t y Tovu F para parafoll Par = Some res"
    and "int i < int (length y) - para ! 1"
    and "py_get (state_after res) (int (length y) - 15) = Some fsh"
    and "P4 = Par ! 75 + Par ! 62 * exp (- Par ! 61 * (t - (Tovu + 7)) ^ 2)"
    and "SumV = (\<Sum>s\<leftarrow>take (nat (int (length y) - para ! 1)) (state_after res).
                   np_power s (parafoll ! 0))"
    and "gamma = parafoll ! 1 * (1 / (1 + (P4 / 3) ^ 3) + fsh ^ 5 / (0.95 ^ 5 + fsh ^ 5))"
    and "kappa = parafoll ! 4 * (0.55 ^ 10 / (0.55 ^ 10 + fsh ^ 10))"
    and "ffsh = fsh ^ 4 / (fsh ^ 4 + (ActiveFSHS F ! i) ^ 4)"
    and "size_i = state_after res ! i"
    and "X = ffsh * (parafoll ! 2 - size_i) * size_i *
               (gamma - kappa * (SumV - parafoll ! 3 * np_power size_i (parafoll ! 0)))"
  shows "growth_of_slot t y Tovu F para parafoll Par i = Some X \<and>
         (py_get para 0 \<noteq> Some 0 \<longrightarrow> derivs res ! i = X \<and> state_after res = y)"
proof -
  note nf = FollicleFunction_nfix[OF assms(1)]
  from assms(1) obtain x y1 f F' where
    as: "active_sizes (int (length y) - para ! 1) y F para = Some (x, y1)" and
    res: "res = \<lparr>derivs = f, state_after = y1, registry_after = F'\<rparr>"
    using nf by (auto elim!: FollicleFunction_SomeE)
  from FollicleFunction_growth[OF assms(1,2)] obtain X0 where
    g: "growth_of_slot t y Tovu F para parafoll Par i = Some X0" and
    tst: "\<And>mode. py_get para 0 = Some mode \<Longrightarrow> mode \<noteq> 0 \<Longrightarrow> derivs res ! i = X0"
    by blast
  from assms(3) res have fsh: "py_get y1 (int (length y) - 15) = Some fsh" by simp
  have "X0 = X"
    using growth_of_slot_closed[OF g assms(2) fsh as] assms(4-10) res by simp
  with g have a: "growth_of_slot t y Tovu F para parafoll Par i = Some X" by simp
  have b: "derivs res ! i = X \<and> state_after res = y" if "py_get para 0 \<noteq> Some 0"
  proof -
    from assms(2) have "0 < int (length y) - para ! 1" by simp
    with as obtain mode where m: "py_get para 0 = Some mode"
      by (auto simp: active_sizes_def bind_eq_Some_conv)
    with that have "mode \<noteq> 0" by auto
    from tst[OF m this] \<open>X0 = X\<close> have "derivs res ! i = X" by simp
    moreover from active_sizes_test_state[OF as that] res have "state_after res = y" by simp
    ultimately show ?thesis by simp
  qed
  from a b show ?thesis by blast
qed

theorem growth_expression_witness:
  "growth_of_slot 15 (2 # 0.55 # replicate 14 0) 0
     \<lparr>Follicle = [\<lparr>Destiny = -1, Time = [0], TimeDecrease = 0\<rparr>], Active = [1], ActiveFSHS = [0.55]\<rparr>
     [1, 15] [1, 0, 3, 0, 2, 0, 0, 0, 0, 0, 100, 0, 0, 100, 100] (replicate 76 0) 0 = Some (- 2)
   \<and> (- 2 # replicate 15 (0::real)) ! 0 = - 2"
proof -
  have fsh: "py_get (state_after \<lparr>derivs = -2 # replicate 15 0, state_after = 2 # 0.55 # replicate 14 0,
            registry_after = \<lparr>Follicle = [\<lparr>Destiny = -1, Time = [0], TimeDecrease = 0\<rparr>],
                               Active = [1], ActiveFSHS = [0.55]\<rparr>\<rparr>)
          (int (length (2 # 0.55 # replicate 14 (0::real))) - 15) = Some 0.55"
    by (simp add: py_get_def py_index_def)
  have i: "int 0 < int (length (2 # 0.55 # replicate 14 (0::real))) - [1, 15] ! 1" by simp
  from growth_expression[OF run_test_mode i fsh refl refl refl refl refl refl refl]
  show ?thesis by (simp add: np_power_def py_get_def py_index_def)
qed

text \<open>
  With \<^verbatim>\<open>parafoll[3] = 0\<close> nothing is taken out of the competition sum: one follicle of
  size \<open>2\<close> in test mode gets \<open>X = -2\<close>, where the expression of the claim, which takes out
  the whole own term, is \<open>0\<close> (\<open>P4 = 0\<close>, \<open>fsh = 0.55\<close>, \<open>SumV = 2\<close>, sensitivity \<open>0.55\<close>).
\<close>

theorem own_share_counterexample:
  "FollicleFunction (\<lambda>t y Par E2 P4. Some (map (\<lambda>v. 0) y)) 15 (2 # 0.55 # replicate 14 0) 0
     \<lparr>Follicle = [\<lparr>Destiny = -1, Time = [0], TimeDecrease = 0\<rparr>], Active = [1], ActiveFSHS = [0.55]\<rparr>
     [1, 15] [1, 0, 3, 0, 2, 0, 0, 0, 0, 0, 100, 0, 0, 100, 100] (replicate 76 0)
   = Some \<lparr>derivs = -2 # replicate 15 0, state_after = 2 # 0.55 # replicate 14 0,
            registry_after = \<lparr>Follicle = [\<lparr>Destiny = -1, Time = [0], TimeDecrease = 0\<rparr>],
                               Active = [1], ActiveFSHS = [0.55]\<rparr>\<rparr>
   \<and> claimed_growth_X [1, 0, 3, 0, 2, 0, 0, 0, 0, 0, 100, 0, 0, 100, 100] 0 0.55
        (np_power 2 1) 0.55 2 = 0"
  using run_test_mode by (simp add: claimed_growth_X_def np_power_def)

text \<open>
  C3 (amended). A follicle whose destiny is \<open>-3\<close> on entry, addressed by one active slot
  only, keeps that destiny through a call in normal mode exactly when the decline condition
  does not hold for it, that is when its raw growth \<open>X\<close> is above \<^verbatim>\<open>parafoll[11]\<close> and
  \<^verbatim>\<open>Time[0] - Time[-1]\<close> is at most \<^verbatim>\<open>parafoll[14]\<close>; otherwise the call marks it
  with destiny \<open>-2\<close>.
\<close>

theorem atretic_destiny_after:
  assumes "FollicleFunction ode t y Tovu F para parafoll Par = Some res"
    and "py_get para 0 = Some 0"
    and "int i < int (length y) - para ! 1"
    and "slot_index F i = Some k"
    and "\<forall>j. int j < int (length y) - para ! 1 \<and> j \<noteq> i \<longrightarrow> slot_index F j \<noteq> Some k"
    and "Destiny (Follicle F ! k) = -3"
  shows "\<exists>X. growth_of_slot t y Tovu F para parafoll Par i = Some X \<and>
     Destiny (Follicle (registry_after res) ! k) =
       (if X \<le> parafoll ! 11 \<or>
           hd (Time (Follicle F ! k)) - last (Time (Follicle F ! k)) > parafoll ! 14
        then -2 else -3)"
proof -
  from FollicleFunction_transition[OF assms(1-5)] obtain X c where
    g: "growth_of_slot t y Tovu F para parafoll Par i = Some X" and
    c: "decline_condition parafoll t X (Follicle F ! k) = Some c" and
    r: "Follicle (registry_after res) ! k =
       (if c \<and> Destiny (Follicle F ! k) \<noteq> -2
        then (Follicle F ! k)\<lparr>Destiny := -2, TimeDecrease := t\<rparr>
        else Follicle F ! k)"
    by blast
  from decline_condition_iff[OF c] assms(6)
  have "c \<longleftrightarrow> X \<le> parafoll ! 11 \<or>
           hd (Time (Follicle F ! k)) - last (Time (Follicle F ! k)) > parafoll ! 14"
    by simp
  with r assms(6) g show ?thesis by auto
qed

theorem atretic_destiny_after_witness:
  "growth_of_slot 15 (2 # replicate 15 1) 0
     \<lparr>Follicle = [\<lparr>Destiny = -3, Time = [0], TimeDecrease = 0\<rparr>], Active = [1], ActiveFSHS = [1]\<rparr>
     [0, 15] [1, 1, 20, 1, 0, 0, 0, 0, 0, 0, 100, -1, -1, 100, 100] (replicate 76 0) 0 = Some 0
   \<and> Destiny (Follicle \<lparr>Follicle = [\<lparr>Destiny = -3, Time = [0], TimeDecrease = 0\<rparr>],
                          Active = [1], ActiveFSHS = [1::real]\<rparr> ! 0) = -3"
  using atretic_destiny_after[OF run_atretic_kept one_slot]
  by (simp add: growth_of_slot_def run_defs)

text \<open>
  The claim as stated, that no call changes a destiny \<open>-3\<close>, fails at the threshold
  \<^verbatim>\<open>parafoll[11] = 0\<close>: the raw growth of the follicle is \<open>0\<close>, the first disjunct of the
  decline condition holds, and the record comes back with destiny \<open>-2\<close>.
\<close>

theorem atretic_sticky_counterexample:
  "FollicleFunction (\<lambda>t y Par E2 P4. Some (map (\<lambda>v. 0) y)) 15 (2 # replicate 15 1) 0
     \<lparr>Follicle = [\<lparr>Destiny = -3, Time = [0], TimeDecrease = 0\<rparr>], Active = [1], ActiveFSHS = [1]\<rparr>
     [0, 15] [1, 1, 20, 1, 0, 0, 0, 0, 0, 0, 100, 0, 0, 100, 100] (replicate 76 0)
   = Some \<lparr>derivs = replicate 16 0, state_after = 0 # replicate 15 1,
            registry_after = \<lparr>Follicle = [\<lparr>Destiny = -2, Time = [0], TimeDecrease = 15\<rparr>],
                               Active = [1], ActiveFSHS = [1]\<rparr>\<rparr>
   \<and> Destiny (Follicle \<lparr>Follicle = [\<lparr>Destiny = -2, Time = [0], TimeDecrease = 15\<rparr>],
                          Active = [1], ActiveFSHS = [1::real]\<rparr> ! 0) \<noteq> -3"
  using run_atretic_remarked by simp

text \<open>
  C4. On every call that returns, the hormone levels are
  \<open>E2 = Par[74] + (Par[58] + Par[59] * SF) + Par[60] * exp (- Par[61] * (t - (Tovu + 7))\<^sup>2)\<close>
  and \<open>P4 = Par[75] + Par[62] * exp (- Par[61] * (t - (Tovu + 7))\<^sup>2)\<close>, where \<open>SF\<close> is \<open>pi\<close>
  times the sum, over the contributing sizes \<open>x\<close>, of the Hill term
  \<open>s ^ Par[56] / (s ^ Par[56] + Par[57] ^ Par[56])\<close> times \<open>s\<^sup>2\<close>. The contributing sizes
  are the sizes of the active follicles in slot order, with \<open>0\<close> for a follicle tagged \<open>-2\<close>,
  \<open>-3\<close> or \<open>4\<close> in normal mode, and \<^verbatim>\<open>[0]\<close> when no follicle is active. These levels are
  the ones handed to the hormone model, whose vector fills the non-follicle slots of the
  result.
\<close>

theorem hormone_snapshot:
  assumes "FollicleFunction ode t y Tovu F para parafoll Par = Some res"
    and "x = (if int (length y) - para ! 1 \<le> 0 then [0]
              else map (\<lambda>j. if py_get para 0 = Some 0 \<and> silenced F j then 0 else y ! j)
                     [0..<nat (int (length y) - para ! 1)])"
    and "SF = pi * (\<Sum>s\<leftarrow>x. np_power s (Par ! 56) /
                      (np_power s (Par ! 56) + np_power (Par ! 57) (Par ! 56)) * s ^ 2)"
    and "E2 = Par ! 74 + (Par ! 58 + Par ! 59 * SF)
                + Par ! 60 * exp (- Par ! 61 * (t - (Tovu + 7)) ^ 2)"
    and "P4 = Par ! 75 + Par ! 62 * exp (- Par ! 61 * (t - (Tovu + 7)) ^ 2)"
  shows "active_sizes (int (length y) - para ! 1) y F para = Some (x, state_after res) \<and>
         hormone_levels t x Tovu Par = Some (E2, P4) \<and>
         (\<exists>dy. ode t (state_after res) Par E2 P4 = Some dy \<and>
               (\<forall>i. nat (int (length y) - para ! 1) \<le> i \<longrightarrow> derivs res ! i = dy ! i))"
proof -
  from assms(1) obtain nfix x' y1 E2' P4' dy fsh pf0 SumV f F' where
    p1: "py_get para 1 = Some nfix" and
    as: "active_sizes (int (length y) - nfix) y F para = Some (x', y1)" and
    hl: "hormone_levels t x' Tovu Par = Some (E2', P4')" and
    od: "ode t y1 Par E2' P4' = Some dy" and
    lp: "follicle_loop t y1 fsh P4' SumV para parafoll
       [0..<nat (int (length y) - nfix)] dy F = Some (f, F')" and
    res: "res = \<lparr>derivs = f, state_after = y1, registry_after = F'\<rparr>"
    by (rule FollicleFunction_SomeE)
  from p1 FollicleFunction_nfix[OF assms(1)] have nfix: "nfix = para ! 1" by simp
  have x: "x' = x"
  proof (cases "int (length y) - para ! 1 \<le> 0")
    case True
    with as nfix assms(2) show ?thesis by (simp add: active_sizes_none)
  next
    case False
    then have pos: "0 < int (length y) - nfix" using nfix by simp
    from FollicleFunction_slots_fit[OF assms(1)] nfix
    have "nat (int (length y) - nfix) \<le> length y" by simp
    from active_sizes_contributing[OF as pos this] False nfix assms(2) show ?thesis by simp
  qed
  from hormone_levels_closed[OF hl] x assms(3-5) have e: "E2' = E2" "P4' = P4" by simp_all
  from follicle_loop_frame[OF lp] nfix res
  have "\<forall>i. nat (int (length y) - para ! 1) \<le> i \<longrightarrow> derivs res ! i = dy ! i" by simp
  with as hl od x e nfix res show ?thesis by auto
qed

theorem hormone_snapshot_witness:
  "active_sizes (int (length (3 # 4 # replicate 15 (1::real))) - [0, 15] ! 1) (3 # 4 # replicate 15 1)
     \<lparr>Follicle = [\<lparr>Destiny = -1, Time = [0], TimeDecrease = 0\<rparr>,
                  \<lparr>Destiny = 4, Time = [0], TimeDecrease = 0\<rparr>], Active = [1, 2], ActiveFSHS = [1, 1]\<rparr>
     [0, 15] = Some ([3, 0], 3 # 0 # replicate 15 1) \<and>
   hormone_levels 8 [3, 0] 0 (replicate 56 0 @ [2, 1, 4, 9, 3, 1, 5] @ replicate 11 0 @ [7, 8])
     = Some (11 + 729 * pi / 10 + 3 * exp (- 1), 8 + 5 * exp (- 1))"
  using hormone_snapshot[OF run_two_follicles refl refl refl refl]
  by (simp add: silenced_def slot_index_def py_get_def py_index_def np_power_def nth_append
      numeral_eq_Suc nth_Cons')

text \<open>
  C5. A follicle that is marked for decline on entry (destiny \<open>-2\<close>, \<^verbatim>\<open>TimeDecrease = 10\<close>)
  has size \<open>2\<close> at \<open>t = 15\<close>. Line 80 asks for \<open>-0.05 * 2 * (15 - 10) = -0.5\<close>; the call
  returns \<open>0\<close> for its slot, because line 20 has written \<open>0\<close> into \<^verbatim>\<open>y[0]\<close> through the
  view \<open>x\<close> before line 80 reads it. The lemma \<open>declining_slot_gets_zero\<close> above shows the same
  for every follicle that enters a call in normal mode with destiny \<open>-2\<close>.
\<close>

theorem declining_derivative_is_zero:
  "FollicleFunction (\<lambda>t y Par E2 P4. Some (map (\<lambda>v. 0) y)) 15 (2 # replicate 15 1) 0
     \<lparr>Follicle = [\<lparr>Destiny = -2, Time = [0], TimeDecrease = 10\<rparr>], Active = [1], ActiveFSHS = [1]\<rparr>
     [0, 15] [1, 1, 20, 1, 0, 0, 0, 0, 0, 0, 100, 0, 0, 100, 100] (replicate 76 0)
   = Some \<lparr>derivs = replicate 16 0, state_after = 0 # replicate 15 1,
            registry_after = \<lparr>Follicle = [\<lparr>Destiny = -2, Time = [0], TimeDecrease = 10\<rparr>],
                               Active = [1], ActiveFSHS = [1]\<rparr>\<rparr>
   \<and> replicate 16 (0::real) ! 0 \<noteq> - 0.05 * ((2 # replicate 15 1) ! 0) * (15 - 10)"
  using run_declining by simp

text \<open>
  C6. A follicle whose destiny is \<open>-3\<close> on entry has size \<open>2\<close>; its raw growth is above the
  thresholds (\<^verbatim>\<open>parafoll[11] = parafoll[12] = -1\<close>), so the decline condition does not hold
  and the branch of line 82 is taken. Line 82 asks for \<open>-1000 * 2 = -2000\<close>; the call returns
  \<open>0\<close> for its slot, because line 20 has written \<open>0\<close> into \<^verbatim>\<open>y[0]\<close> through the view
  \<open>x\<close> before line 82 reads it. The lemma \<open>atretic_slot_gets_zero\<close> above shows the same for
  every follicle that enters a call in normal mode with destiny \<open>-3\<close>, whichever branch is
  taken.
\<close>

theorem atretic_derivative_is_zero:
  "FollicleFunction (\<lambda>t y Par E2 P4. Some (map (\<lambda>v. 0) y)) 15 (2 # replicate 15 1) 0
     \<lparr>Follicle = [\<lparr>Destiny = -3, Time = [0], TimeDecrease = 0\<rparr>], Active = [1], ActiveFSHS = [1]\<rparr>
     [0, 15] [1, 1, 20, 1, 0, 0, 0, 0, 0, 0, 100, -1, -1, 100, 100] (replicate 76 0)
   = Some \<lparr>derivs = replicate 16 0, state_after = 0 # replicate 15 1,
            registry_after = \<lparr>Follicle = [\<lparr>Destiny = -3, Time = [0], TimeDecrease = 0\<rparr>],
                               Active = [1], ActiveFSHS = [1]\<rparr>\<rparr>
   \<and> replicate 16 (0::real) ! 0 \<noteq> - 1000 * ((2 # replicate 15 1) ! 0)"
  using run_atretic_kept by simp

text \<open>
  C7 (amended). The last disjunct of the decline condition is a guard on the recorded time
  stamps, not on sizes: a follicle whose destiny is not \<open>-2\<close> on entry, addressed by one
  active slot only, is marked for decline by a call in normal mode exactly when one of the
  five disjuncts of lines 67 to 72 holds, the last of them being
  \<^verbatim>\<open>Time[0] - Time[-1] > parafoll[14]\<close>, the first recorded time stamp exceeding the last
  one by more than \<^verbatim>\<open>parafoll[14]\<close>.
\<close>

theorem decline_transition:
  assumes "FollicleFunction ode t y Tovu F para parafoll Par = Some res"
    and "py_get para 0 = Some 0"
    and "int i < int (length y) - para ! 1"
    and "slot_index F i = Some k"
    and "\<forall>j. int j < int (length y) - para ! 1 \<and> j \<noteq> i \<longrightarrow> slot_index F j \<noteq> Some k"
    and "Destiny (Follicle F ! k) \<noteq> -2"
    and "r = Follicle F ! k"
  shows "\<exists>X. growth_of_slot t y Tovu F para parafoll Par i = Some X \<and>
     (Destiny (Follicle (registry_after res) ! k) = -2 \<longleftrightarrow>
        X \<le> parafoll ! 11 \<or>
        (X \<le> parafoll ! 12 \<and> t - hd (Time r) \<ge> parafoll ! 14 \<and> Destiny r = 3) \<or>
        (X \<le> parafoll ! 12 \<and> t - hd (Time r) \<ge> parafoll ! 13 \<and> Destiny r = -1) \<or>
        (Destiny r = 3 \<and> t - TimeDecrease r \<ge> parafoll ! 10) \<or>
        hd (Time r) - last (Time r) > parafoll ! 14)"
proof -
  from FollicleFunction_transition[OF assms(1-5)] obtain X c where
    g: "growth_of_slot t y Tovu F para parafoll Par i = Some X" and
    c: "decline_condition parafoll t X (Follicle F ! k) = Some c" and
    r: "Follicle (registry_after res) ! k =
       (if c \<and> Destiny (Follicle F ! k) \<noteq> -2
        then (Follicle F ! k)\<lparr>Destiny := -2, TimeDecrease := t\<rparr>
        else Follicle F ! k)"
    by blast
  from r assms(6) have "Destiny (Follicle (registry_after res) ! k) = -2 \<longleftrightarrow> c" by simp
  with decline_condition_iff[OF c] assms(6,7) g show ?thesis by auto
qed

theorem decline_transition_witness:
  "growth_of_slot 6 (2 # replicate 15 1) 0
     \<lparr>Follicle = [\<lparr>Destiny = -1, Time = [5, 1], TimeDecrease = 0\<rparr>], Active = [1], ActiveFSHS = [1]\<rparr>
     [0, 15] [1, 1, 20, 1, 0, 0, 0, 0, 0, 0, 100, 0, 0, 100, 3] (replicate 76 0) 0
     = Some (53256594 / 1892033)
   \<and> Destiny (Follicle \<lparr>Follicle = [\<lparr>Destiny = -2, Time = [5, 1], TimeDecrease = 6\<rparr>],
                          Active = [1], ActiveFSHS = [1::real]\<rparr> ! 0) = -2
   \<and> hd [5, 1] - last [5, 1] > ([1, 1, 20, 1, 0, 0, 0, 0, 0, 0, 100, 0, 0, 100, 3] ! 14 :: real)"
  using decline_transition[OF run_time_guard one_slot _ refl]
  by (simp add: growth_of_slot_def run_defs)

text \<open>
  A follicle whose size samples fell from \<open>10\<close> to \<open>2\<close>, by more than the span
  \<^verbatim>\<open>parafoll[14] = 3\<close>, with time stamps \<open>1\<close> and \<open>5\<close> and a positive raw growth: the guard
  of the claim holds, yet the call leaves the follicle unmarked.
\<close>

theorem size_guard_counterexample:
  "map_option registry_after
     (FollicleFunction (\<lambda>t y Par E2 P4. Some (map (\<lambda>v. 0) y)) 6 (2 # replicate 15 1) 0
        \<lparr>Follicle = [\<lparr>Destiny = -1, Time = [1, 5], TimeDecrease = 0, SizeSamples = [10, 2]\<rparr>],
         Active = [1], ActiveFSHS = [1]\<rparr>
        [0, 15] [1, 1, 20, 1, 0, 0, 0, 0, 0, 0, 100, 0, 0, 100, 3] (replicate 76 0))
   = Some \<lparr>Follicle = [\<lparr>Destiny = -1, Time = [1, 5], TimeDecrease = 0, SizeSamples = [10, 2]\<rparr>],
            Active = [1], ActiveFSHS = [1]\<rparr>
   \<and> claimed_stagnation_guard ([1, 1, 20, 1, 0, 0, 0, 0, 0, 0, 100, 0, 0, 100, 3] ! 14)
        (SizeSamples \<lparr>Destiny = -1, Time = [1, 5], TimeDecrease = 0, SizeSamples = [10, 2]\<rparr>)"
  using run_sizes_dropped by (simp add: claimed_stagnation_guard_def)

text \<open>
  C8. In test mode (\<^verbatim>\<open>para[0]\<close> other than \<open>0\<close>) the returned derivatives do not depend on
  the destinies: a registry \<open>G\<close> that differs from \<open>F\<close> only in the destinies of its records
  gives the same derivative vector (or the same failure), and every follicle slot holds the
  raw growth expression \<open>X\<close> of its pass.
\<close>

theorem test_mode_ignores_destiny:
  assumes "py_get para 0 = Some mode" and "mode \<noteq> 0"
    and "length ds = length (Follicle F)"
    and "G = F\<lparr>Follicle := map2 (\<lambda>r d. r\<lparr>Destiny := d\<rparr>) (Follicle F) ds\<rparr>"
  shows "map_option derivs (FollicleFunction ode t y Tovu G para parafoll Par)
           = map_option derivs (FollicleFunction ode t y Tovu F para parafoll Par) \<and>
         (\<forall>res i. FollicleFunction ode t y Tovu F para parafoll Par = Some res \<and>
                  int i < int (length y) - para ! 1
            \<longrightarrow> growth_of_slot t y Tovu F para parafoll Par i = Some (derivs res ! i))"
proof -
  from assms(1,2) have m: "py_get para 0 \<noteq> Some 0" by simp
  from assms(4) have a: "ActiveFSHS G = ActiveFSHS F" by simp
  have "map_option derivs (FollicleFunction ode t y Tovu G para parafoll Par)
           = map_option derivs (FollicleFunction ode t y Tovu F para parafoll Par)"
  proof (cases "FollicleFunction ode t y Tovu F para parafoll Par")
    case (Some res)
    from test_mode_transfer[OF m a Some] Some show ?thesis by simp
  next
    case None
    show ?thesis
    proof (cases "FollicleFunction ode t y Tovu G para parafoll Par")
      case (Some res)
      from test_mode_transfer[OF m a[symmetric] Some] None show ?thesis by simp
    next
      case None
      with \<open>FollicleFunction ode t y Tovu F para parafoll Par = None\<close> show ?thesis by simp
    qed
  qed
  moreover have "growth_of_slot t y Tovu F para parafoll Par i = Some (derivs res ! i)"
    if "FollicleFunction ode t y Tovu F para parafoll Par = Some res"
      and "int i < int (length y) - para ! 1" for res i
    using FollicleFunction_growth[OF that] assms(1,2) by auto
  ultimately show ?thesis by blast
qed

theorem test_mode_ignores_destiny_witness:
  "map_option derivs (FollicleFunction (\<lambda>t y Par E2 P4. Some (map (\<lambda>v. 0) y)) 15
      (2 # 0.55 # replicate 14 0) 0
      \<lparr>Follicle = [\<lparr>Destiny = -3, Time = [0], TimeDecrease = 0\<rparr>], Active = [1], ActiveFSHS = [0.55]\<rparr>
      [1, 15] [1, 0, 3, 0, 2, 0, 0, 0, 0, 0, 100, 0, 0, 100, 100] (replicate 76 0))
   = Some (-2 # replicate 15 0)"
  using test_mode_ignores_destiny[of "[1, 15]" 1 "[-3]"
      "\<lparr>Follicle = [\<lparr>Destiny = -1, Time = [0], TimeDecrease = 0\<rparr>], Active = [1], ActiveFSHS = [0.55]\<rparr>"
      "\<lparr>Follicle = [\<lparr>Destiny = -3, Time = [0], TimeDecrease = 0\<rparr>], Active = [1], ActiveFSHS = [0.55]\<rparr>"
      "\<lambda>t y Par E2 P4. Some (map (\<lambda>v. 0) y)" 15 "2 # 0.55 # replicate 14 0" 0
      "[1, 0, 3, 0, 2, 0, 0, 0, 0, 0, 100, 0, 0, 100, 100]" "replicate 76 0"]
    run_test_mode
  by (simp add: py_get_def py_index_def)




text \<open>
  C10. The returned vector is as long as the state vector \<open>y\<close>, and every slot at or beyond
  the number of active follicles holds the component that \<^verbatim>\<open>ODE_Model_NormalCycle\<close>
  computed for it (called on the state vector as the function holds it at that point, with
  the hormone levels of lines 29 to 31): only the leading follicle slots are overwritten. The
  hormone model is a parameter, taken to return one derivative per state variable.
\<close>

theorem derivs_length_and_tail:
  assumes "FollicleFunction ode t y Tovu F para parafoll Par = Some res"
    and "ode_keeps_length ode"
  shows "length (derivs res) = length y \<and>
         (\<exists>x E2 P4 dy. hormone_levels t x Tovu Par = Some (E2, P4) \<and>
            ode t (state_after res) Par E2 P4 = Some dy \<and>
            (\<forall>i. nat (int (length y) - para ! 1) \<le> i \<longrightarrow> derivs res ! i = dy ! i))"
proof -
  from assms(1) obtain nfix x y1 E2 P4 dy fsh pf0 SumV f F' where
    p1: "py_get para 1 = Some nfix" and
    as: "active_sizes (int (length y) - nfix) y F para = Some (x, y1)" and
    hl: "hormone_levels t x Tovu Par = Some (E2, P4)" and
    od: "ode t y1 Par E2 P4 = Some dy" and
    lp: "follicle_loop t y1 fsh P4 SumV para parafoll
       [0..<nat (int (length y) - nfix)] dy F = Some (f, F')" and
    res: "res = \<lparr>derivs = f, state_after = y1, registry_after = F'\<rparr>"
    by (rule FollicleFunction_SomeE)
  from p1 FollicleFunction_nfix[OF assms(1)] have nfix: "nfix = para ! 1" by simp
  from od assms(2) have "length dy = length y1" by (auto simp: ode_keeps_length_def)
  with active_sizes_length[OF as] have ld: "length dy = length y" by simp
  from follicle_loop_frame[OF lp]
  have lf: "length f = length dy"
    and tl: "\<And>j. j \<notin> set [0..<nat (int (length y) - nfix)] \<Longrightarrow> f ! j = dy ! j"
    by simp_all
  have "\<forall>i. nat (int (length y) - para ! 1) \<le> i \<longrightarrow> derivs res ! i = dy ! i"
    using tl res nfix by simp
  with hl od res lf ld show ?thesis by auto
qed

theorem derivs_length_and_tail_witness:
  "FollicleFunction (\<lambda>t y Par E2 P4. Some (map (\<lambda>v. 0) y)) 15 (25 # replicate 15 1) 0
     \<lparr>Follicle = [\<lparr>Destiny = -1, Time = [0], TimeDecrease = 0\<rparr>], Active = [1], ActiveFSHS = [1]\<rparr>
     [0, 15] [1, 1, 20, 1, 0, 0, 0, 0, 0, 0, 100, 0, 0, 100, 100] (replicate 76 0)
   = Some \<lparr>derivs = replicate 16 0, state_after = 25 # replicate 15 1,
            registry_after = \<lparr>Follicle = [\<lparr>Destiny = -2, Time = [0], TimeDecrease = 15\<rparr>],
                               Active = [1], ActiveFSHS = [1]\<rparr>\<rparr>
   \<and> length (replicate 16 (0::real)) = length (25 # replicate 15 (1::real))
   \<and> (\<exists>x E2 P4 dy. hormone_levels 15 x 0 (replicate 76 0) = Some (E2, P4) \<and>
         Some (map (\<lambda>v. 0) (25 # replicate 15 (1::real))) = Some dy \<and>
         (\<forall>i. nat (int (length (25 # replicate 15 (1::real))) - [0, 15] ! 1) \<le> i
              \<longrightarrow> replicate 16 (0::real) ! i = dy ! i))"
  using derivs_length_and_tail[OF run_marking ode_zero_keeps_length] run_marking
  by simp

end
